theory Spec2Isabelle
  imports Complex_Main "HOL-Library.Sublist"
begin

section \<open>Python values used by agent.py\<close>

text \<open>
  The three tool functions of \<^verbatim>\<open>agent.py\<close> (\<^verbatim>\<open>get_weather\<close>, \<^verbatim>\<open>get_current_time\<close>,
  \<^verbatim>\<open>get_forecast\<close>) read JSON documents returned by HTTP providers, do a little float
  arithmetic and build strings. This section models the Python values they touch.

  Strings are byte strings in UTF-8 (a \<^typ>\<open>char\<close> is one byte): the degree sign of the
  weather report is the two bytes C2 B0. Python counts code points instead, which no
  function below observes (no string is measured or indexed beyond its first element).
\<close>

text \<open>
  A Python float is an IEEE binary64 value. A finite value other than zero is
  \<open>FNum m e\<close>, the number \<open>m * 2^e\<close> with \<open>m \<noteq> 0\<close>; the operations below return it with
  \<open>m\<close> odd, so that equal numbers are equal terms. The two zeros, the two infinities
  and NaN have constructors of their own.
\<close>

datatype pyfloat = FNum int int | FZero | FNegZero | FInf | FNegInf | FNaN

datatype pynum = PInt int | PFloat pyfloat

text \<open>
  What \<^verbatim>\<open>response.json()\<close> returns: \<^verbatim>\<open>None\<close>, \<^verbatim>\<open>bool\<close>, \<^verbatim>\<open>int\<close>, \<^verbatim>\<open>float\<close>,
  \<^verbatim>\<open>str\<close>, \<^verbatim>\<open>list\<close> or \<^verbatim>\<open>dict\<close>. A dict holds its items in insertion order; the
  keys of a dict that Python built are distinct, and a lookup takes the first match.
\<close>

datatype json =
    JNull
  | JBool bool
  | JInt int
  | JFloat pyfloat
  | JStr string
  | JArr "json list"
  | JObj "(string \<times> json) list"

text \<open>
  Exceptions, all of them subclasses of \<^verbatim>\<open>Exception\<close> (what \<^verbatim>\<open>except Exception\<close>
  catches). \<open>LibError\<close> is an exception raised inside a library call (\<^verbatim>\<open>requests\<close>,
  the JSON decoder, \<^verbatim>\<open>zoneinfo\<close>, \<^verbatim>\<open>datetime\<close>), identified by a text.
\<close>

datatype exn =
    KeyError json
  | IndexError
  | TypeError
  | ValueError
  | OverflowError
  | ZeroDivisionError
  | LibError string

text \<open>Sequencing of computations that may raise: the first exception ends the block.\<close>

definition raising :: "exn + 'a \<Rightarrow> ('a \<Rightarrow> exn + 'b) \<Rightarrow> exn + 'b" where
  "raising r k = (case r of Inl e \<Rightarrow> Inl e | Inr v \<Rightarrow> k v)"

subsection \<open>Subscripting, truth values, iteration\<close>

text \<open>\<^verbatim>\<open>v['k']\<close>: only a dict can be subscripted by a string.\<close>

definition getitem_str :: "json \<Rightarrow> string \<Rightarrow> exn + json" where
  "getitem_str v k =
     (case v of
        JObj kvs \<Rightarrow> (case map_of kvs k of None \<Rightarrow> Inl (KeyError (JStr k)) | Some x \<Rightarrow> Inr x)
      | _ \<Rightarrow> Inl TypeError)"

text \<open>
  \<^verbatim>\<open>v[0]\<close>. On a string it is the one-character string of its first character (here:
  first byte); every \<^verbatim>\<open>[0]\<close> of the source is followed by a string subscript, which
  raises \<^verbatim>\<open>TypeError\<close> on any string. A dict parsed from JSON has no integer key.
\<close>

definition getitem_0 :: "json \<Rightarrow> exn + json" where
  "getitem_0 v =
     (case v of
        JArr xs \<Rightarrow> (case xs of [] \<Rightarrow> Inl IndexError | x # _ \<Rightarrow> Inr x)
      | JStr s \<Rightarrow> (case s of [] \<Rightarrow> Inl IndexError | c # _ \<Rightarrow> Inr (JStr [c]))
      | JObj kvs \<Rightarrow> Inl (KeyError (JInt 0))
      | _ \<Rightarrow> Inl TypeError)"

text \<open>\<^verbatim>\<open>bool(v)\<close>, as \<^verbatim>\<open>if not v\<close> reads it.\<close>

fun truthy :: "json \<Rightarrow> bool" where
  "truthy JNull = False"
| "truthy (JBool b) = b"
| "truthy (JInt i) = (i \<noteq> 0)"
| "truthy (JFloat x) = (x \<noteq> FZero \<and> x \<noteq> FNegZero)"
| "truthy (JStr s) = (s \<noteq> [])"
| "truthy (JArr xs) = (xs \<noteq> [])"
| "truthy (JObj kvs) = (kvs \<noteq> [])"

text \<open>
  \<^verbatim>\<open>for x in v\<close>: a list yields its elements, a dict its keys, a string its characters;
  anything else is not iterable.
\<close>

definition py_iter :: "json \<Rightarrow> exn + json list" where
  "py_iter v =
     (case v of
        JArr xs \<Rightarrow> Inr xs
      | JObj kvs \<Rightarrow> Inr (map (\<lambda>kv. JStr (fst kv)) kvs)
      | JStr s \<Rightarrow> Inr (map (\<lambda>c. JStr [c]) s)
      | _ \<Rightarrow> Inl TypeError)"

text \<open>A bool is an int in arithmetic, comparisons and numeric formatting.\<close>

definition as_num :: "json \<Rightarrow> pynum option" where
  "as_num v =
     (case v of
        JBool b \<Rightarrow> Some (PInt (if b then 1 else 0))
      | JInt i \<Rightarrow> Some (PInt i)
      | JFloat x \<Rightarrow> Some (PFloat x)
      | _ \<Rightarrow> None)"

subsection \<open>Decimal text of integers\<close>

definition digit_char :: "int \<Rightarrow> char" where
  "digit_char d = ''0123456789'' ! nat d"

text \<open>The decimal digits of an int that is not negative.\<close>

function str_nat :: "int \<Rightarrow> string" where
  "str_nat n = (if n < 10 then [digit_char n] else str_nat (n div 10) @ [digit_char (n mod 10)])"
  by pat_completeness auto
termination
  by (relation "measure nat") auto

declare str_nat.simps [simp del]

text \<open>\<^verbatim>\<open>str(i)\<close> of an int, as an f-string field \<^verbatim>\<open>{i}\<close> prints it.\<close>

definition str_int :: "int \<Rightarrow> string" where
  "str_int i = (if i < 0 then CHR ''-'' # str_nat (- i) else str_nat i)"

text \<open>A field that is not negative, printed with at least \<open>w\<close> digits, zero-padded on the left.\<close>

definition zero_pad :: "nat \<Rightarrow> int \<Rightarrow> string" where
  "zero_pad w n = replicate (w - length (str_nat n)) CHR ''0'' @ str_nat n"

subsection \<open>Binary64 arithmetic\<close>

text \<open>\<^verbatim>\<open>int.bit_length\<close> of an int that is not negative.\<close>

function bit_length :: "int \<Rightarrow> int" where
  "bit_length n = (if n \<le> 0 then 0 else 1 + bit_length (n div 2))"
  by pat_completeness auto
termination
  by (relation "measure nat") auto

declare bit_length.simps [simp del]

definition pow2 :: "int \<Rightarrow> int" where
  "pow2 k = 2 ^ nat k"

text \<open>\<open>\<lfloor>log\<^sub>2 (a / d)\<rfloor>\<close> for positive \<open>a\<close> and \<open>d\<close>.\<close>

definition floor_log2 :: "int \<Rightarrow> int \<Rightarrow> int" where
  "floor_log2 a d =
     (let k = bit_length a - bit_length d
      in if (if 0 \<le> k then d * pow2 k \<le> a else d \<le> a * pow2 (- k)) then k else k - 1)"

text \<open>\<open>n / d\<close> rounded to the nearest integer, ties to the even one (\<open>0 \<le> n\<close>, \<open>0 < d\<close>).\<close>

definition div_half_even :: "int \<Rightarrow> int \<Rightarrow> int" where
  "div_half_even n d =
     (let q = n div d; r = n mod d
      in if 2 * r < d then q else if d < 2 * r then q + 1 else if even q then q else q + 1)"

definition fzero :: "bool \<Rightarrow> pyfloat" where
  "fzero neg = (if neg then FNegZero else FZero)"

definition finf :: "bool \<Rightarrow> pyfloat" where
  "finf neg = (if neg then FNegInf else FInf)"

text \<open>The finite float \<open>m * 2^e\<close> (\<open>m \<noteq> 0\<close>) with its trailing zero bits moved into the exponent.\<close>

function fnormal :: "int \<Rightarrow> int \<Rightarrow> pyfloat" where
  "fnormal m e = (if m \<noteq> 0 \<and> even m then fnormal (m div 2) (e + 1) else FNum m e)"
  by pat_completeness auto
termination
  by (relation "measure (\<lambda>(m, e). nat \<bar>m\<bar>)") auto

declare fnormal.simps [simp del]

text \<open>
  The binary64 value of the exact result \<open>(n / d) * 2^x\<close> (\<open>0 < d\<close>), round-to-nearest-even:
  53 significant bits, least exponent \<open>-1022\<close> (subnormals below it), overflow to
  infinity once the rounded magnitude reaches \<open>2^1024\<close>. \<open>t\<close> is the exponent of the last
  place kept; \<open>neg\<close> is the sign of the result when it is exactly zero.
\<close>

definition round_binary64 :: "bool \<Rightarrow> int \<Rightarrow> int \<Rightarrow> int \<Rightarrow> pyfloat" where
  "round_binary64 neg n d x =
     (if n = 0 then fzero neg
      else
        let a = \<bar>n\<bar>;
            t = max (floor_log2 a d + x) (- 1022) - 52;
            m = (if t \<le> x then div_half_even (a * pow2 (x - t)) d
                 else div_half_even a (d * pow2 (t - x)))
        in if m = 0 then fzero (n < 0)
           else if 1024 < bit_length m + t then finf (n < 0)
           else fnormal (if n < 0 then - m else m) t)"

fun fsign :: "pyfloat \<Rightarrow> bool" where
  "fsign (FNum m e) = (m < 0)"
| "fsign FZero = False"
| "fsign FNegZero = True"
| "fsign FInf = False"
| "fsign FNegInf = True"
| "fsign FNaN = False"

text \<open>Mantissa and exponent of a finite float (a zero is \<open>0 * 2^0\<close>).\<close>

fun fmant :: "pyfloat \<Rightarrow> int" where
  "fmant (FNum m e) = m"
| "fmant _ = 0"

fun fexp :: "pyfloat \<Rightarrow> int" where
  "fexp (FNum m e) = e"
| "fexp _ = 0"

definition is_inf :: "pyfloat \<Rightarrow> bool" where
  "is_inf x = (x = FInf \<or> x = FNegInf)"

definition is_zero :: "pyfloat \<Rightarrow> bool" where
  "is_zero x = (x = FZero \<or> x = FNegZero)"

definition fmul :: "pyfloat \<Rightarrow> pyfloat \<Rightarrow> pyfloat" where
  "fmul x y =
     (if x = FNaN \<or> y = FNaN then FNaN
      else if is_inf x \<or> is_inf y then
        (if is_zero x \<or> is_zero y then FNaN else finf (fsign x \<noteq> fsign y))
      else round_binary64 (fsign x \<noteq> fsign y) (fmant x * fmant y) 1 (fexp x + fexp y))"

text \<open>Division by a divisor that is not zero (Python raises on a zero divisor first).\<close>

definition fdiv :: "pyfloat \<Rightarrow> pyfloat \<Rightarrow> pyfloat" where
  "fdiv x y =
     (if x = FNaN \<or> y = FNaN then FNaN
      else if is_inf x then (if is_inf y then FNaN else finf (fsign x \<noteq> fsign y))
      else if is_inf y then fzero (fsign x \<noteq> fsign y)
      else round_binary64 (fsign x \<noteq> fsign y)
             (if fmant y < 0 then - fmant x else fmant x) \<bar>fmant y\<bar> (fexp x - fexp y))"

definition fadd :: "pyfloat \<Rightarrow> pyfloat \<Rightarrow> pyfloat" where
  "fadd x y =
     (if x = FNaN \<or> y = FNaN then FNaN
      else if is_inf x then (if is_inf y \<and> fsign x \<noteq> fsign y then FNaN else x)
      else if is_inf y then y
      else
        let e = min (fexp x) (fexp y)
        in round_binary64 (fsign x \<and> fsign y)
             (fmant x * pow2 (fexp x - e) + fmant y * pow2 (fexp y - e)) 1 e)"

text \<open>\<^verbatim>\<open>float(i)\<close>: \<^verbatim>\<open>OverflowError\<close> when the int is too large.\<close>

definition float_of_int :: "int \<Rightarrow> exn + pyfloat" where
  "float_of_int i =
     (let x = round_binary64 False i 1 0
      in if is_inf x then Inl OverflowError else Inr x)"

text \<open>
  The operators of the source, whose right operand is always an int literal:
  \<^verbatim>\<open>v * k\<close>, \<^verbatim>\<open>v / k\<close> (true division) and \<^verbatim>\<open>v + k\<close>.
\<close>

definition py_mul :: "pynum \<Rightarrow> int \<Rightarrow> exn + pynum" where
  "py_mul v k =
     (case v of
        PInt i \<Rightarrow> Inr (PInt (i * k))
      | PFloat x \<Rightarrow> raising (float_of_int k) (\<lambda>y. Inr (PFloat (fmul x y))))"

definition py_truediv :: "pynum \<Rightarrow> int \<Rightarrow> exn + pynum" where
  "py_truediv v k =
     (case v of
        PInt i \<Rightarrow>
          (if k = 0 then Inl ZeroDivisionError
           else let x = round_binary64 ((i < 0) \<noteq> (k < 0)) (if k < 0 then - i else i) \<bar>k\<bar> 0
                in if is_inf x then Inl OverflowError else Inr (PFloat x))
      | PFloat x \<Rightarrow>
          raising (float_of_int k)
            (\<lambda>y. if is_zero y then Inl ZeroDivisionError else Inr (PFloat (fdiv x y))))"

definition py_add :: "pynum \<Rightarrow> int \<Rightarrow> exn + pynum" where
  "py_add v k =
     (case v of
        PInt i \<Rightarrow> Inr (PInt (i + k))
      | PFloat x \<Rightarrow> raising (float_of_int k) (\<lambda>y. Inr (PFloat (fadd x y))))"

text \<open>
  \<^verbatim>\<open>a < b\<close> on numbers: exact, also between an int and a float; false when either side
  is NaN. \<open>num_level\<close> places a number below, among or above the finite ones.
\<close>

fun num_level :: "pynum \<Rightarrow> int" where
  "num_level (PFloat FInf) = 1"
| "num_level (PFloat FNegInf) = - 1"
| "num_level _ = 0"

fun num_mant :: "pynum \<Rightarrow> int" where
  "num_mant (PInt i) = i"
| "num_mant (PFloat x) = fmant x"

fun num_exp :: "pynum \<Rightarrow> int" where
  "num_exp (PInt i) = 0"
| "num_exp (PFloat x) = fexp x"

definition py_lt :: "pynum \<Rightarrow> pynum \<Rightarrow> bool" where
  "py_lt a b =
     (a \<noteq> PFloat FNaN \<and> b \<noteq> PFloat FNaN \<and>
      (num_level a < num_level b \<or>
       (num_level a = num_level b \<and>
        (let e = min (num_exp a) (num_exp b)
         in num_mant a * pow2 (num_exp a - e) < num_mant b * pow2 (num_exp b - e)))))"

text \<open>
  The format spec \<^verbatim>\<open>.1f\<close>: the exact value rounded to one decimal, ties to even, with
  the sign of the float (also of a negative zero and of a negative value that rounds to
  zero). An int is converted to a float first.
\<close>

definition format_float_1f :: "pyfloat \<Rightarrow> string" where
  "format_float_1f x =
     (case x of
        FNaN \<Rightarrow> ''nan''
      | FInf \<Rightarrow> ''inf''
      | FNegInf \<Rightarrow> ''-inf''
      | _ \<Rightarrow>
          (let a = \<bar>fmant x\<bar> * 10;
               n = (if 0 \<le> fexp x then a * pow2 (fexp x) else div_half_even a (pow2 (- fexp x)))
           in (if fsign x then ''-'' else '''') @ str_nat (n div 10) @ ''.'' @ str_nat (n mod 10)))"

definition format_1f :: "pynum \<Rightarrow> exn + string" where
  "format_1f v =
     (case v of
        PInt i \<Rightarrow> raising (float_of_int i) (\<lambda>x. Inr (format_float_1f x))
      | PFloat x \<Rightarrow> Inr (format_float_1f x))"

text \<open>
  \<^verbatim>\<open>f"{v:.1f}"\<close> of a JSON value: a string refuses the format code, a container or
  \<^verbatim>\<open>None\<close> the format string.
\<close>

definition format_1f_json :: "json \<Rightarrow> exn + string" where
  "format_1f_json v =
     (case as_num v of
        Some n \<Rightarrow> format_1f n
      | None \<Rightarrow> (case v of JStr s \<Rightarrow> Inl ValueError | _ \<Rightarrow> Inl TypeError))"

section \<open>The world outside the process\<close>

text \<open>
  What \<^verbatim>\<open>requests.get(url)\<close> returns: a response with its status code and the outcome
  of \<^verbatim>\<open>response.json()\<close>, which raises when the body is not JSON.
\<close>

record response =
  status_code :: int
  json_body :: "exn + json"

text \<open>
  A \<^verbatim>\<open>datetime\<close> object: its calendar fields, and the name \<^verbatim>\<open>%Z\<close> prints (none for a
  naive datetime).
\<close>

record datetime =
  year :: int
  month :: int
  day :: int
  hour :: int
  minute :: int
  second :: int
  tzname :: "string option"

text \<open>
  Everything the functions read from outside: the two environment variables read at import
  (\<^verbatim>\<open>os.getenv\<close> gives \<^verbatim>\<open>None\<close> for an unset one), the HTTP providers, the clock and the
  time zone database, and the interpreter's \<^verbatim>\<open>str()\<close> where its text is not modelled.

  \<^item> \<open>http_get w n url\<close> is the outcome of the \<open>n\<close>-th \<^verbatim>\<open>requests.get\<close> of an invocation
    (counted from 0) when it asks for \<open>url\<close>: an exception or a response.
  \<^item> \<open>fromtimestamp w t\<close> is \<^verbatim>\<open>datetime.datetime.fromtimestamp(t)\<close>, in the local time
    zone of the process.
  \<^item> \<open>ZoneInfo w v\<close> is \<^verbatim>\<open>ZoneInfo(v)\<close>, a time zone identified by its key, and
    \<open>now w tz\<close> is \<^verbatim>\<open>datetime.datetime.now(tz)\<close>.
  \<^item> \<open>str_exn w e\<close> is \<^verbatim>\<open>str(e)\<close> of an exception; \<open>str_value w v\<close> is \<^verbatim>\<open>str(v)\<close> of a
    float, a list or a dict.
  \<^item> \<open>set_order w xs\<close> is the order in which a \<^verbatim>\<open>set\<close> built by adding \<open>xs\<close> in this
    order is iterated.
\<close>

record world =
  OPENWEATHER_API_KEY :: "string option"
  TIMEZONEDB_API_KEY :: "string option"
  http_get :: "nat \<Rightarrow> string \<Rightarrow> exn + response"
  fromtimestamp :: "pynum \<Rightarrow> exn + datetime"
  ZoneInfo :: "json \<Rightarrow> exn + string"
  now :: "string \<Rightarrow> exn + datetime"
  str_exn :: "exn \<Rightarrow> string"
  str_value :: "json \<Rightarrow> string"
  set_order :: "json list \<Rightarrow> json list"

text \<open>
  \<^verbatim>\<open>requests.get(url)\<close>, with the list of the URLs requested so far in this invocation:
  the call is recorded whether it returns or raises.
\<close>

definition requests_get :: "world \<Rightarrow> string \<Rightarrow> string list \<Rightarrow> (exn + response) \<times> string list" where
  "requests_get w url calls = (http_get w (length calls) url, calls @ [url])"

subsection \<open>Text\<close>

definition newline :: string where
  "newline = [CHR 0x0A]"

definition degree :: string where
  "degree = [CHR 0xC2, CHR 0xB0]"

definition a_acute :: string where
  "a_acute = [CHR 0xC3, CHR 0xA1]"

definition o_acute :: string where
  "o_acute = [CHR 0xC3, CHR 0xB3]"

definition calendar_emoji :: string where
  "calendar_emoji = [CHR 0xF0, CHR 0x9F, CHR 0x93, CHR 0x85]"

definition thermometer_emoji :: string where
  "thermometer_emoji = [CHR 0xF0, CHR 0x9F, CHR 0x8C, CHR 0xA1, CHR 0xEF, CHR 0xB8, CHR 0x8F]"

definition cloud_emoji :: string where
  "cloud_emoji = [CHR 0xE2, CHR 0x98, CHR 0x81, CHR 0xEF, CHR 0xB8, CHR 0x8F]"

text \<open>\<^verbatim>\<open>'{s}'\<close>: a field between two apostrophes.\<close>

definition quoted :: "string \<Rightarrow> string" where
  "quoted s = CHR 0x27 # s @ [CHR 0x27]"

text \<open>An f-string field \<^verbatim>\<open>{k}\<close> holding an environment variable.\<close>

definition fstr_env :: "string option \<Rightarrow> string" where
  "fstr_env k = (case k of None \<Rightarrow> ''None'' | Some s \<Rightarrow> s)"

text \<open>An f-string field \<^verbatim>\<open>{v}\<close> holding a JSON value.\<close>

definition fstr_json :: "world \<Rightarrow> json \<Rightarrow> string" where
  "fstr_json w v =
     (case v of
        JStr s \<Rightarrow> s
      | JInt i \<Rightarrow> str_int i
      | JNull \<Rightarrow> ''None''
      | JBool b \<Rightarrow> (if b then ''True'' else ''False'')
      | _ \<Rightarrow> str_value w v)"

text \<open>
  \<^verbatim>\<open>dt.strftime(fmt)\<close> for the directives the source uses. The year is printed with
  four digits (for a year below 1000 the C library of some platforms prints fewer; the
  years of \<^verbatim>\<open>datetime.now\<close> and of a forecast are later).
\<close>

definition directive :: "datetime \<Rightarrow> char \<Rightarrow> string" where
  "directive dt c =
     (if c = CHR ''Y'' then zero_pad 4 (year dt)
      else if c = CHR ''m'' then zero_pad 2 (month dt)
      else if c = CHR ''d'' then zero_pad 2 (day dt)
      else if c = CHR ''H'' then zero_pad 2 (hour dt)
      else if c = CHR ''M'' then zero_pad 2 (minute dt)
      else if c = CHR ''S'' then zero_pad 2 (second dt)
      else if c = CHR ''Z'' then (case tzname dt of None \<Rightarrow> [] | Some n \<Rightarrow> n)
      else [CHR ''%'', c])"

fun strftime :: "datetime \<Rightarrow> string \<Rightarrow> string" where
  "strftime dt [] = []"
| "strftime dt [c] = [c]"
| "strftime dt (c # d # cs) =
     (if c = CHR ''%'' then directive dt d @ strftime dt cs else c # strftime dt (d # cs))"

text \<open>\<^verbatim>\<open>", ".join(xs)\<close> of strings.\<close>

fun join_comma :: "string list \<Rightarrow> string" where
  "join_comma [] = []"
| "join_comma [s] = s"
| "join_comma (s # t # ss) = s @ '', '' @ join_comma (t # ss)"

subsection \<open>The result dicts\<close>

type_synonym pydict = "(string \<times> string) list"

definition success :: "string \<Rightarrow> pydict" where
  "success report = [(''status'', ''success''), (''report'', report)]"

definition failure :: "string \<Rightarrow> pydict" where
  "failure error_message = [(''status'', ''error''), (''error_message'', error_message)]"

section \<open>get_weather\<close>

text \<open>\<^verbatim>\<open>(c * 9/5) + 32\<close>.\<close>

definition fahrenheit :: "pynum \<Rightarrow> exn + pynum" where
  "fahrenheit c = raising (py_mul c 9) (\<lambda>a. raising (py_truediv a 5) (\<lambda>b. py_add b 32))"

text \<open>
  The same on a value read from JSON. A string or a list can be multiplied by 9 but not
  divided by 5; \<^verbatim>\<open>None\<close> and a dict cannot be multiplied.
\<close>

definition fahrenheit_json :: "json \<Rightarrow> exn + pynum" where
  "fahrenheit_json v = (case as_num v of None \<Rightarrow> Inl TypeError | Some c \<Rightarrow> fahrenheit c)"

definition weather_url :: "world \<Rightarrow> string \<Rightarrow> string" where
  "weather_url w city =
     ''http://api.openweathermap.org/data/2.5/weather?q='' @ city @ ''&appid=''
       @ fstr_env (OPENWEATHER_API_KEY w) @ ''&units=metric''"

text \<open>The branch \<^verbatim>\<open>response.status_code == 200\<close> of \<^verbatim>\<open>get_weather\<close>.\<close>

definition weather_report :: "world \<Rightarrow> string \<Rightarrow> response \<Rightarrow> exn + pydict" where
  "weather_report w city resp =
     raising (json_body resp) (\<lambda>data.
     raising (getitem_str data ''main'') (\<lambda>main.
     raising (getitem_str main ''temp'') (\<lambda>temp_c.
     raising (fahrenheit_json temp_c) (\<lambda>temp_f.
     raising (getitem_str data ''weather'') (\<lambda>weather.
     raising (getitem_0 weather) (\<lambda>weather0.
     raising (getitem_str weather0 ''description'') (\<lambda>weather_desc.
     raising (format_1f_json temp_c) (\<lambda>c_text.
     raising (format_1f temp_f) (\<lambda>f_text.
       Inr (success
         (''The weather in '' @ city @ '' is '' @ fstr_json w weather_desc
            @ '' with a temperature of '' @ c_text @ degree @ ''C ('' @ f_text @ degree
            @ ''F).'')))))))))))"

text \<open>The body of the \<^verbatim>\<open>try\<close> block: the dict it returns or the exception it raises.\<close>

definition get_weather_try :: "world \<Rightarrow> string \<Rightarrow> string list \<Rightarrow> (exn + pydict) \<times> string list" where
  "get_weather_try w city calls =
     (let (r, calls1) = requests_get w (weather_url w city) calls
      in case r of
           Inl e \<Rightarrow> (Inl e, calls1)
         | Inr resp \<Rightarrow>
             if status_code resp = 200 then (weather_report w city resp, calls1)
             else
               (Inr (failure
                  (''Weather information for '' @ quoted city @ '' is not available. Error: ''
                     @ str_int (status_code resp))),
                calls1))"

text \<open>
  \<^verbatim>\<open>get_weather(city)\<close>: the dict returned, and the URLs requested, in order.
\<close>

definition get_weather :: "world \<Rightarrow> string \<Rightarrow> pydict \<times> string list" where
  "get_weather w city =
     (case get_weather_try w city [] of
        (Inl e, calls) \<Rightarrow> (failure (''Error getting weather data: '' @ str_exn w e), calls)
      | (Inr d, calls) \<Rightarrow> (d, calls))"

section \<open>get_current_time\<close>

definition geo_url :: "world \<Rightarrow> string \<Rightarrow> string" where
  "geo_url w city =
     ''http://api.openweathermap.org/geo/1.0/direct?q='' @ city @ ''&limit=1&appid=''
       @ fstr_env (OPENWEATHER_API_KEY w)"

definition tz_url :: "world \<Rightarrow> json \<Rightarrow> json \<Rightarrow> string" where
  "tz_url w lat lon =
     ''http://api.timezonedb.com/v2.1/get-time-zone?key='' @ fstr_env (TIMEZONEDB_API_KEY w)
       @ ''&format=json&by=position&lat='' @ fstr_json w lat @ ''&lng='' @ fstr_json w lon"

text \<open>
  What follows \<^verbatim>\<open>tz_response = requests.get(tz_url)\<close>: the report on status 200 with
  provider status \<^verbatim>\<open>'OK'\<close>, the timezone error dict otherwise.
\<close>

definition time_report :: "world \<Rightarrow> string \<Rightarrow> response \<Rightarrow> exn + pydict" where
  "time_report w city tz_response =
     (if status_code tz_response = 200 then
        raising (json_body tz_response) (\<lambda>tz_data.
        raising (getitem_str tz_data ''status'') (\<lambda>status.
          if status = JStr ''OK'' then
            raising (getitem_str tz_data ''zoneName'') (\<lambda>zoneName.
            raising (ZoneInfo w zoneName) (\<lambda>tz.
            raising (now w tz) (\<lambda>now_dt.
              Inr (success
                (''The current time in '' @ city @ '' is ''
                   @ strftime now_dt ''%Y-%m-%d %H:%M:%S %Z'')))))
          else Inr (failure (''Could not get timezone information for '' @ city))))
      else Inr (failure (''Could not get timezone information for '' @ city)))"

definition get_current_time_try ::
  "world \<Rightarrow> string \<Rightarrow> string list \<Rightarrow> (exn + pydict) \<times> string list" where
  "get_current_time_try w city calls =
     (let (r1, calls1) = requests_get w (geo_url w city) calls
      in case r1 of
           Inl e \<Rightarrow> (Inl e, calls1)
         | Inr geo_response \<Rightarrow>
             if status_code geo_response \<noteq> 200 then
               (Inr (failure (''Could not find coordinates for '' @ city)), calls1)
             else
               (case json_body geo_response of
                  Inl e \<Rightarrow> (Inl e, calls1)
                | Inr geo_data \<Rightarrow>
                    if \<not> truthy geo_data then
                      (Inr (failure (''City '' @ quoted city @ '' not found'')), calls1)
                    else
                      (case raising (getitem_0 geo_data) (\<lambda>g. getitem_str g ''lat'') of
                         Inl e \<Rightarrow> (Inl e, calls1)
                       | Inr lat \<Rightarrow>
                           (case raising (getitem_0 geo_data) (\<lambda>g. getitem_str g ''lon'') of
                              Inl e \<Rightarrow> (Inl e, calls1)
                            | Inr lon \<Rightarrow>
                                (let (r2, calls2) = requests_get w (tz_url w lat lon) calls1
                                 in case r2 of
                                      Inl e \<Rightarrow> (Inl e, calls2)
                                    | Inr tz_response \<Rightarrow>
                                        (time_report w city tz_response, calls2))))))"

definition get_current_time :: "world \<Rightarrow> string \<Rightarrow> pydict \<times> string list" where
  "get_current_time w city =
     (case get_current_time_try w city [] of
        (Inl e, calls) \<Rightarrow> (failure (''Error getting time data: '' @ str_exn w e), calls)
      | (Inr d, calls) \<Rightarrow> (d, calls))"

section \<open>get_forecast\<close>

text \<open>
  One value of the dict \<^verbatim>\<open>daily_forecasts\<close>. The set \<^verbatim>\<open>descriptions\<close> is held as the list
  of its elements in the order they were added.
\<close>

record daily_forecast =
  temp_min :: pynum
  temp_max :: pynum
  descriptions :: "json list"

type_synonym daily_forecasts = "(string \<times> daily_forecast) list"

definition forecast_url :: "world \<Rightarrow> string \<Rightarrow> string" where
  "forecast_url w city =
     ''http://api.openweathermap.org/data/2.5/forecast?q='' @ city @ ''&appid=''
       @ fstr_env (OPENWEATHER_API_KEY w) @ ''&units=metric''"

text \<open>\<^verbatim>\<open>not OPENWEATHER_API_KEY\<close> is true of \<^verbatim>\<open>None\<close> and of the empty string.\<close>

definition env_truthy :: "string option \<Rightarrow> bool" where
  "env_truthy k = (case k of None \<Rightarrow> False | Some s \<Rightarrow> s \<noteq> [])"

text \<open>\<^verbatim>\<open>datetime.datetime.fromtimestamp(dt).strftime('%Y-%m-%d')\<close>.\<close>

definition local_date :: "world \<Rightarrow> json \<Rightarrow> exn + string" where
  "local_date w dt =
     (case as_num dt of
        None \<Rightarrow> Inl TypeError
      | Some t \<Rightarrow> raising (fromtimestamp w t) (\<lambda>d. Inr (strftime d ''%Y-%m-%d'')))"

text \<open>
  \<^verbatim>\<open>min(a, v)\<close> and \<^verbatim>\<open>max(a, v)\<close> of the running value and a value read from JSON: the
  second argument replaces the first only when it is strictly smaller (larger).
\<close>

definition py_min :: "pynum \<Rightarrow> json \<Rightarrow> exn + pynum" where
  "py_min a v = (case as_num v of None \<Rightarrow> Inl TypeError | Some b \<Rightarrow> Inr (if py_lt b a then b else a))"

definition py_max :: "pynum \<Rightarrow> json \<Rightarrow> exn + pynum" where
  "py_max a v = (case as_num v of None \<Rightarrow> Inl TypeError | Some b \<Rightarrow> Inr (if py_lt a b then b else a))"

text \<open>
  \<^verbatim>\<open>u == v\<close> on hashable values, as a set compares its elements: numbers (and bools) by
  value, so that \<^verbatim>\<open>1\<close>, \<^verbatim>\<open>1.0\<close> and \<^verbatim>\<open>True\<close> are one element; a NaN equals nothing, not even
  another NaN; strings and \<^verbatim>\<open>None\<close> equal themselves only.
\<close>

definition py_eq :: "json \<Rightarrow> json \<Rightarrow> bool" where
  "py_eq u v =
     (case (as_num u, as_num v) of
        (Some a, Some b) \<Rightarrow>
          a \<noteq> PFloat FNaN \<and> b \<noteq> PFloat FNaN \<and> \<not> py_lt a b \<and> \<not> py_lt b a
      | (None, None) \<Rightarrow> u = v
      | _ \<Rightarrow> False)"

text \<open>
  \<^verbatim>\<open>s.add(v)\<close>: a list or a dict is not hashable; a value equal to an element of the set
  is not added.
\<close>

definition set_add :: "json list \<Rightarrow> json \<Rightarrow> exn + json list" where
  "set_add xs v =
     (case v of
        JArr _ \<Rightarrow> Inl TypeError
      | JObj _ \<Rightarrow> Inl TypeError
      | _ \<Rightarrow> Inr (if list_ex (py_eq v) xs then xs else xs @ [v]))"

text \<open>\<^verbatim>\<open>daily_forecasts[date]\<close>, and an assignment to a field of that entry.\<close>

definition dict_get :: "daily_forecasts \<Rightarrow> string \<Rightarrow> exn + daily_forecast" where
  "dict_get daily date =
     (case map_of daily date of None \<Rightarrow> Inl (KeyError (JStr date)) | Some d \<Rightarrow> Inr d)"

definition update_entry ::
  "string \<Rightarrow> (daily_forecast \<Rightarrow> daily_forecast) \<Rightarrow> daily_forecasts \<Rightarrow> daily_forecasts" where
  "update_entry date f daily = map (\<lambda>kv. if fst kv = date then (fst kv, f (snd kv)) else kv) daily"

definition fresh_day :: daily_forecast where
  "fresh_day = \<lparr>temp_min = PFloat FInf, temp_max = PFloat FNegInf, descriptions = []\<rparr>"

text \<open>One turn of the loop \<^verbatim>\<open>for forecast in forecast_list\<close>.\<close>

definition add_forecast :: "world \<Rightarrow> daily_forecasts \<Rightarrow> json \<Rightarrow> exn + daily_forecasts" where
  "add_forecast w daily forecast =
     raising (getitem_str forecast ''dt'') (\<lambda>dt.
     raising (local_date w dt) (\<lambda>date.
       let daily1 = (if map_of daily date = None then daily @ [(date, fresh_day)] else daily)
       in
     raising (dict_get daily1 date) (\<lambda>d1.
     raising (getitem_str forecast ''main'') (\<lambda>main1.
     raising (getitem_str main1 ''temp_min'') (\<lambda>tmin.
     raising (py_min (temp_min d1) tmin) (\<lambda>new_min.
       let daily2 = update_entry date (\<lambda>d. d\<lparr>temp_min := new_min\<rparr>) daily1
       in
     raising (dict_get daily2 date) (\<lambda>d2.
     raising (getitem_str forecast ''main'') (\<lambda>main2.
     raising (getitem_str main2 ''temp_max'') (\<lambda>tmax.
     raising (py_max (temp_max d2) tmax) (\<lambda>new_max.
       let daily3 = update_entry date (\<lambda>d. d\<lparr>temp_max := new_max\<rparr>) daily2
       in
     raising (dict_get daily3 date) (\<lambda>d3.
     raising (getitem_str forecast ''weather'') (\<lambda>weather.
     raising (getitem_0 weather) (\<lambda>weather0.
     raising (getitem_str weather0 ''description'') (\<lambda>desc.
     raising (set_add (descriptions d3) desc) (\<lambda>new_set.
       Inr (update_entry date (\<lambda>d. d\<lparr>descriptions := new_set\<rparr>) daily3))))))))))))))))"

fun fold_forecasts :: "world \<Rightarrow> json list \<Rightarrow> daily_forecasts \<Rightarrow> exn + daily_forecasts" where
  "fold_forecasts w [] daily = Inr daily"
| "fold_forecasts w (forecast # rest) daily =
     raising (add_forecast w daily forecast) (\<lambda>daily'. fold_forecasts w rest daily')"

text \<open>\<^verbatim>\<open>", ".join(forecast['descriptions'])\<close>: every element must be a string.\<close>

definition json_str :: "json \<Rightarrow> string option" where
  "json_str v = (case v of JStr s \<Rightarrow> Some s | _ \<Rightarrow> None)"

definition join_descriptions :: "world \<Rightarrow> json list \<Rightarrow> exn + string" where
  "join_descriptions w xs =
     (case those (map json_str (set_order w xs)) of
        None \<Rightarrow> Inl TypeError
      | Some ss \<Rightarrow> Inr (join_comma ss))"

text \<open>What one turn of the report loop appends to \<^verbatim>\<open>forecast_report\<close>.\<close>

definition day_block :: "world \<Rightarrow> string \<times> daily_forecast \<Rightarrow> exn + string" where
  "day_block w entry =
     (let date = fst entry; forecast = snd entry
      in
     raising (fahrenheit (temp_min forecast)) (\<lambda>temp_min_f.
     raising (fahrenheit (temp_max forecast)) (\<lambda>temp_max_f.
     raising (join_descriptions w (descriptions forecast)) (\<lambda>conditions.
     raising (format_1f (temp_min forecast)) (\<lambda>min_c.
     raising (format_1f (temp_max forecast)) (\<lambda>max_c.
     raising (format_1f temp_min_f) (\<lambda>min_f.
     raising (format_1f temp_max_f) (\<lambda>max_f.
       Inr (calendar_emoji @ '' '' @ date @ '':'' @ newline
            @ ''   '' @ thermometer_emoji @ '' Temperatura: '' @ min_c @ degree @ ''C a ''
            @ max_c @ degree @ ''C ('' @ min_f @ degree @ ''F a '' @ max_f @ degree @ ''F)''
            @ newline
            @ ''   '' @ cloud_emoji @ '' Condiciones: '' @ conditions @ newline @ newline)))))))))"

fun render_days :: "world \<Rightarrow> daily_forecasts \<Rightarrow> string \<Rightarrow> exn + string" where
  "render_days w [] forecast_report = Inr forecast_report"
| "render_days w (entry # rest) forecast_report =
     raising (day_block w entry) (\<lambda>block. render_days w rest (forecast_report @ block))"

definition report_header :: "string \<Rightarrow> string" where
  "report_header city =
     ''Pron'' @ o_acute @ ''stico del tiempo para '' @ city @ '':'' @ newline @ newline"

text \<open>The branch \<^verbatim>\<open>response.status_code == 200\<close> of \<^verbatim>\<open>get_forecast\<close>.\<close>

definition forecast_report :: "world \<Rightarrow> string \<Rightarrow> response \<Rightarrow> exn + pydict" where
  "forecast_report w city resp =
     raising (json_body resp) (\<lambda>data.
     raising (getitem_str data ''list'') (\<lambda>forecast_list.
     raising (py_iter forecast_list) (\<lambda>forecasts.
     raising (fold_forecasts w forecasts []) (\<lambda>daily.
     raising (render_days w (take 5 daily) (report_header city)) (\<lambda>report.
       Inr (success report))))))"

text \<open>The message of the \<^verbatim>\<open>else\<close> branch.\<close>

definition forecast_error_msg :: "string \<Rightarrow> int \<Rightarrow> string" where
  "forecast_error_msg city status =
     (let error_msg =
            ''Forecast information for '' @ quoted city @ '' is not available. Error: ''
              @ str_int status
      in if status = 401 then ''API key inv'' @ a_acute @ ''lida o no configurada correctamente''
         else if status = 404 then ''No se encontr'' @ o_acute @ '' la ciudad: '' @ city
         else error_msg)"

definition get_forecast_try :: "world \<Rightarrow> string \<Rightarrow> string list \<Rightarrow> (exn + pydict) \<times> string list" where
  "get_forecast_try w city calls =
     (if \<not> env_truthy (OPENWEATHER_API_KEY w) then
        (Inr (failure (''OpenWeather API key no est'' @ a_acute @ '' configurada'')), calls)
      else
        let (r, calls1) = requests_get w (forecast_url w city) calls
        in case r of
             Inl e \<Rightarrow> (Inl e, calls1)
           | Inr resp \<Rightarrow>
               if status_code resp = 200 then (forecast_report w city resp, calls1)
               else (Inr (failure (forecast_error_msg city (status_code resp))), calls1))"

definition get_forecast :: "world \<Rightarrow> string \<Rightarrow> pydict \<times> string list" where
  "get_forecast w city =
     (case get_forecast_try w city [] of
        (Inl e, calls) \<Rightarrow> (failure (''Error getting forecast data: '' @ str_exn w e), calls)
      | (Inr d, calls) \<Rightarrow> (d, calls))"

section \<open>What a day's aggregate is\<close>

text \<open>
  The fields of one forecast sample as the loop reads them: its calendar day
  (\<^verbatim>\<open>fromtimestamp(forecast['dt'])\<close> printed as a date), the number at
  \<^verbatim>\<open>forecast['main'][key]\<close>, and \<^verbatim>\<open>forecast['weather'][0]['description']\<close>.
\<close>

definition sample_date :: "world \<Rightarrow> json \<Rightarrow> exn + string" where
  "sample_date w forecast = raising (getitem_str forecast ''dt'') (local_date w)"

definition sample_num :: "json \<Rightarrow> string \<Rightarrow> exn + pynum" where
  "sample_num forecast key =
     raising (getitem_str forecast ''main'') (\<lambda>main.
     raising (getitem_str main key) (\<lambda>v.
       case as_num v of None \<Rightarrow> Inl TypeError | Some n \<Rightarrow> Inr n))"

definition sample_description :: "json \<Rightarrow> exn + json" where
  "sample_description forecast =
     raising (getitem_str forecast ''weather'') (\<lambda>weather.
     raising (getitem_0 weather) (\<lambda>x. getitem_str x ''description''))"

text \<open>The samples of one calendar day, in the order of the response.\<close>

definition day_samples :: "world \<Rightarrow> string \<Rightarrow> json list \<Rightarrow> json list" where
  "day_samples w date samples = filter (\<lambda>forecast. sample_date w forecast = Inr date) samples"

text \<open>The distinct elements of a list, in the order of their first occurrence.\<close>

definition first_seen :: "'a list \<Rightarrow> 'a list" where
  "first_seen xs = rev (remdups (rev xs))"

text \<open>
  \<open>m\<close> is the minimum of the readings \<open>vs\<close>: every reading is a number, none is below \<open>m\<close>,
  and \<open>m\<close> is one of them. The running minimum starts at \<^verbatim>\<open>float('inf')\<close> and NaN compares
  false with everything, so readings that are all NaN leave it at infinity. The maximum
  is symmetric.
\<close>

definition is_min_of :: "pynum \<Rightarrow> (exn + pynum) list \<Rightarrow> bool" where
  "is_min_of m vs =
     ((\<forall>v \<in> set vs. case v of Inr a \<Rightarrow> \<not> py_lt a m | Inl e \<Rightarrow> False) \<and>
      (Inr m \<in> set vs \<or> (m = PFloat FInf \<and> (\<forall>v \<in> set vs. v = Inr (PFloat FNaN)))))"

definition is_max_of :: "pynum \<Rightarrow> (exn + pynum) list \<Rightarrow> bool" where
  "is_max_of m vs =
     ((\<forall>v \<in> set vs. case v of Inr b \<Rightarrow> \<not> py_lt m b | Inl e \<Rightarrow> False) \<and>
      (Inr m \<in> set vs \<or> (m = PFloat FNegInf \<and> (\<forall>v \<in> set vs. v = Inr (PFloat FNaN)))))"

text \<open>No element of the list equals a later one.\<close>

fun deduplicated :: "json list \<Rightarrow> bool" where
  "deduplicated [] = True"
| "deduplicated (x # xs) = (\<not> list_ex (py_eq x) xs \<and> deduplicated xs)"

text \<open>
  \<open>ds\<close> is the deduplicated set of the descriptions \<open>vs\<close>: every element of \<open>ds\<close> is one of
  them, every one of them is in \<open>ds\<close> or equals an element of \<open>ds\<close>, and \<open>ds\<close> has no two
  equal elements.
\<close>

definition describes :: "json list \<Rightarrow> (exn + json) list \<Rightarrow> bool" where
  "describes ds vs =
     (set (map Inr ds) \<subseteq> set vs \<and>
      (\<forall>v \<in> set vs. case v of Inr x \<Rightarrow> x \<in> set ds \<or> list_ex (py_eq x) ds | Inl e \<Rightarrow> False) \<and>
      deduplicated ds)"

text \<open>
  \<open>agg\<close> aggregates the samples \<open>fs\<close>: minimum of \<^verbatim>\<open>temp_min\<close>, maximum of \<^verbatim>\<open>temp_max\<close>, and
  the deduplicated set of the descriptions.
\<close>

definition aggregates :: "daily_forecast \<Rightarrow> json list \<Rightarrow> bool" where
  "aggregates agg fs =
     (is_min_of (temp_min agg) (map (\<lambda>forecast. sample_num forecast ''temp_min'') fs) \<and>
      is_max_of (temp_max agg) (map (\<lambda>forecast. sample_num forecast ''temp_max'') fs) \<and>
      describes (descriptions agg) (map sample_description fs))"

text \<open>
  \<open>daily\<close> is the dict the loop has built from \<open>samples\<close>: its keys are the calendar days
  of the samples in first-seen order, and each value aggregates the samples of its day.
\<close>

definition aggregated :: "world \<Rightarrow> json list \<Rightarrow> daily_forecasts \<Rightarrow> bool" where
  "aggregated w samples daily =
     (map Inr (map fst daily) = first_seen (map (sample_date w) samples) \<and>
      (\<forall>entry \<in> set daily.
         day_samples w (fst entry) samples \<noteq> [] \<and>
         aggregates (snd entry) (day_samples w (fst entry) samples)))"

text \<open>
  The entry of a day after one more sample with readings \<open>a\<close>, \<open>b\<close> and description \<open>d\<close>.
\<close>

definition merged :: "daily_forecast \<Rightarrow> pynum \<Rightarrow> pynum \<Rightarrow> json \<Rightarrow> daily_forecast" where
  "merged old a b d =
     \<lparr>temp_min = (if py_lt a (temp_min old) then a else temp_min old),
      temp_max = (if py_lt (temp_max old) b then b else temp_max old),
      descriptions = (if list_ex (py_eq d) (descriptions old) then descriptions old
                      else descriptions old @ [d])\<rparr>"

text \<open>
  A sample in the shape of the provider's documentation: a timestamp the local clock can
  convert, float readings \<^verbatim>\<open>temp_min\<close> and \<^verbatim>\<open>temp_max\<close>, and a string description. An entry
  of \<^verbatim>\<open>daily_forecasts\<close> built from such samples holds floats and strings only.
\<close>

definition well_formed_sample :: "world \<Rightarrow> json \<Rightarrow> bool" where
  "well_formed_sample w forecast =
     ((case sample_date w forecast of Inr date \<Rightarrow> True | Inl e \<Rightarrow> False) \<and>
      (case raising (getitem_str forecast ''main'') (\<lambda>main. getitem_str main ''temp_min'') of
         Inr (JFloat a) \<Rightarrow> True | _ \<Rightarrow> False) \<and>
      (case raising (getitem_str forecast ''main'') (\<lambda>main. getitem_str main ''temp_max'') of
         Inr (JFloat b) \<Rightarrow> True | _ \<Rightarrow> False) \<and>
      (case sample_description forecast of Inr (JStr s) \<Rightarrow> True | _ \<Rightarrow> False))"

definition printable :: "daily_forecast \<Rightarrow> bool" where
  "printable agg =
     ((case temp_min agg of PFloat a \<Rightarrow> True | PInt i \<Rightarrow> False) \<and>
      (case temp_max agg of PFloat b \<Rightarrow> True | PInt i \<Rightarrow> False) \<and>
      list_all (\<lambda>d. json_str d \<noteq> None) (descriptions agg))"

text \<open>The value of a number that is neither NaN nor infinite.\<close>

definition num_val :: "pynum \<Rightarrow> rat" where
  "num_val a = of_int (num_mant a) * 2 powi (num_exp a)"

section \<open>Reading the results\<close>

text \<open>
  The two shapes of a returned dict: the keys \<^verbatim>\<open>status\<close> and \<^verbatim>\<open>report\<close> with status
  \<^verbatim>\<open>"success"\<close>, or the keys \<^verbatim>\<open>status\<close> and \<^verbatim>\<open>error_message\<close> with status \<^verbatim>\<open>"error"\<close>.
\<close>

definition is_success :: "pydict \<Rightarrow> bool" where
  "is_success d = (map fst d = [''status'', ''report''] \<and> map_of d ''status'' = Some ''success'')"

definition is_failure :: "pydict \<Rightarrow> bool" where
  "is_failure d =
     (map fst d = [''status'', ''error_message''] \<and> map_of d ''status'' = Some ''error'')"

text \<open>The message \<^verbatim>\<open>get_forecast\<close> returns when the API key is missing.\<close>

definition missing_key_message :: string where
  "missing_key_message = ''OpenWeather API key no est'' @ a_acute @ '' configurada''"

section \<open>Example worlds\<close>

text \<open>
  A world with both keys set, whose providers are given by \<open>provider\<close>. Its local clock is
  UTC and knows January 2025 (1735689600 is 2025-01-01 00:00:00 UTC); its time zone
  database knows Europe/Paris, where it is 13:04:05 CET on 15 January 2025.
\<close>

definition example_fromtimestamp :: "pynum \<Rightarrow> exn + datetime" where
  "example_fromtimestamp t =
     (case t of
        PInt i \<Rightarrow>
          (let s = i - 1735689600
           in if 0 \<le> s \<and> s < 31 * 86400 then
                Inr \<lparr>year = 2025, month = 1, day = 1 + s div 86400,
                     hour = (s mod 86400) div 3600, minute = (s mod 3600) div 60,
                     second = s mod 60, tzname = None\<rparr>
              else Inl (LibError ''year out of range''))
      | PFloat x \<Rightarrow> Inl (LibError ''year out of range''))"

text \<open>The floats 48.85 and 2.35.\<close>

definition paris_lat :: pyfloat where
  "paris_lat = FNum 6875026306157773 (- 47)"

definition paris_lon :: pyfloat where
  "paris_lon = FNum 5291729562160333 (- 51)"

definition example_str_exn :: "exn \<Rightarrow> string" where
  "example_str_exn e =
     (case e of
        KeyError k \<Rightarrow> (case k of JStr s \<Rightarrow> quoted s | _ \<Rightarrow> ''0'')
      | IndexError \<Rightarrow> ''list index out of range''
      | LibError s \<Rightarrow> s
      | _ \<Rightarrow> ''unsupported operand'')"

definition example_world :: "(nat \<Rightarrow> string \<Rightarrow> exn + response) \<Rightarrow> world" where
  "example_world provider =
     \<lparr>OPENWEATHER_API_KEY = Some ''KEY1'',
      TIMEZONEDB_API_KEY = Some ''KEY2'',
      http_get = provider,
      fromtimestamp = example_fromtimestamp,
      ZoneInfo = (\<lambda>v. if v = JStr ''Europe/Paris'' then Inr ''Europe/Paris''
                      else Inl (LibError ''No time zone found'')),
      now = (\<lambda>tz. if tz = ''Europe/Paris'' then
                     Inr \<lparr>year = 2025, month = 1, day = 15, hour = 13, minute = 4,
                          second = 5, tzname = Some ''CET''\<rparr>
                   else Inl (LibError ''No time zone found'')),
      str_exn = example_str_exn,
      str_value = (\<lambda>v. if v = JFloat paris_lat then ''48.85''
                       else if v = JFloat paris_lon then ''2.35'' else ''[]''),
      set_order = (\<lambda>xs. xs)\<rparr>"

text \<open>The weather provider answers 200 with 15.0 degrees and a clear sky.\<close>

definition london_data :: json where
  "london_data =
     JObj [(''main'', JObj [(''temp'', JFloat (FNum 15 0))]),
           (''weather'', JArr [JObj [(''description'', JStr ''clear sky'')]])]"

definition london_response :: response where
  "london_response = \<lparr>status_code = 200, json_body = Inr london_data\<rparr>"

definition london_world :: world where
  "london_world = example_world (\<lambda>n url. Inr london_response)"

text \<open>The same provider, asked by a process whose \<^verbatim>\<open>OPENWEATHER_API_KEY\<close> is not set.\<close>

definition keyless_world :: world where
  "keyless_world = london_world\<lparr>OPENWEATHER_API_KEY := None\<rparr>"

text \<open>Providers that answer every request with the same status and a body that is not JSON.\<close>

definition status_response :: "int \<Rightarrow> response" where
  "status_response s = \<lparr>status_code = s, json_body = Inl (LibError ''Expecting value'')\<rparr>"

definition status_world :: "int \<Rightarrow> world" where
  "status_world s = example_world (\<lambda>n url. Inr (status_response s))"

text \<open>A network that fails every request.\<close>

definition offline_world :: world where
  "offline_world = example_world (\<lambda>n url. Inl (LibError ''Connection refused''))"

text \<open>
  The geocoder finds Paris and the time zone provider names its zone: the first request
  is answered by the geocoder, the second by the time zone provider.
\<close>

definition paris_geo_response :: response where
  "paris_geo_response =
     \<lparr>status_code = 200,
      json_body = Inr (JArr [JObj [(''lat'', JFloat paris_lat), (''lon'', JFloat paris_lon)]])\<rparr>"

definition paris_tz_response :: response where
  "paris_tz_response =
     \<lparr>status_code = 200,
      json_body = Inr (JObj [(''status'', JStr ''OK''), (''zoneName'', JStr ''Europe/Paris'')])\<rparr>"

definition paris_world :: world where
  "paris_world =
     example_world (\<lambda>n url. if n = 0 then Inr paris_geo_response else Inr paris_tz_response)"

text \<open>The geocoder answers 200 with an empty list: it knows no such city.\<close>

definition nowhere_world :: world where
  "nowhere_world =
     example_world (\<lambda>n url. Inr \<lparr>status_code = 200, json_body = Inr (JArr [])\<rparr>)"

text \<open>The geocoder finds Paris, and the request to the time zone provider times out.\<close>

definition tz_down_world :: world where
  "tz_down_world =
     example_world
       (\<lambda>n url. if n = 0 then Inr paris_geo_response else Inl (LibError ''Read timed out''))"

text \<open>Every request is answered 200 with the empty JSON object.\<close>

definition empty_object_world :: world where
  "empty_object_world =
     example_world (\<lambda>n url. Inr \<lparr>status_code = 200, json_body = Inr (JObj [])\<rparr>)"

text \<open>
  A forecast of eight samples over seven days, 1 to 7 January 2025; the first day has two
  samples. The temperatures are 10.5/12.0, 9.0/14.5, 8.0/11.0, 7.5/13.0, 6.0/10.0,
  5.5/9.5, 4.0/8.5 and 3.5/7.0 degrees.
\<close>

definition forecast_sample :: "int \<Rightarrow> pyfloat \<Rightarrow> pyfloat \<Rightarrow> string \<Rightarrow> json" where
  "forecast_sample t lo hi description =
     JObj [(''dt'', JInt t),
           (''main'', JObj [(''temp_min'', JFloat lo), (''temp_max'', JFloat hi)]),
           (''weather'', JArr [JObj [(''description'', JStr description)]])]"

definition week_samples :: "json list" where
  "week_samples =
     [forecast_sample 1735689600 (FNum 21 (- 1)) (FNum 3 2) ''clear sky'',
      forecast_sample 1735700400 (FNum 9 0) (FNum 29 (- 1)) ''few clouds'',
      forecast_sample 1735776000 (FNum 1 3) (FNum 11 0) ''light rain'',
      forecast_sample 1735862400 (FNum 15 (- 1)) (FNum 13 0) ''clear sky'',
      forecast_sample 1735948800 (FNum 3 1) (FNum 5 1) ''overcast clouds'',
      forecast_sample 1736035200 (FNum 11 (- 1)) (FNum 19 (- 1)) ''snow'',
      forecast_sample 1736121600 (FNum 1 2) (FNum 17 (- 1)) ''mist'',
      forecast_sample 1736208000 (FNum 7 (- 1)) (FNum 7 0) ''clear sky'']"

definition week_world :: world where
  "week_world =
     example_world (\<lambda>n url. Inr \<lparr>status_code = 200,
                                 json_body = Inr (JObj [(''list'', JArr week_samples)])\<rparr>)"

definition week_day_1 :: daily_forecast where
  "week_day_1 =
     \<lparr>temp_min = PFloat (FNum 9 0), temp_max = PFloat (FNum 29 (- 1)),
      descriptions = [JStr ''clear sky'', JStr ''few clouds'']\<rparr>"

definition week_daily :: daily_forecasts where
  "week_daily =
     [(''2025-01-01'', week_day_1),
      (''2025-01-02'',
       \<lparr>temp_min = PFloat (FNum 1 3), temp_max = PFloat (FNum 11 0),
        descriptions = [JStr ''light rain'']\<rparr>),
      (''2025-01-03'',
       \<lparr>temp_min = PFloat (FNum 15 (- 1)), temp_max = PFloat (FNum 13 0),
        descriptions = [JStr ''clear sky'']\<rparr>),
      (''2025-01-04'',
       \<lparr>temp_min = PFloat (FNum 3 1), temp_max = PFloat (FNum 5 1),
        descriptions = [JStr ''overcast clouds'']\<rparr>),
      (''2025-01-05'',
       \<lparr>temp_min = PFloat (FNum 11 (- 1)), temp_max = PFloat (FNum 19 (- 1)),
        descriptions = [JStr ''snow'']\<rparr>),
      (''2025-01-06'',
       \<lparr>temp_min = PFloat (FNum 1 2), temp_max = PFloat (FNum 17 (- 1)),
        descriptions = [JStr ''mist'']\<rparr>),
      (''2025-01-07'',
       \<lparr>temp_min = PFloat (FNum 7 (- 1)), temp_max = PFloat (FNum 7 0),
        descriptions = [JStr ''clear sky'']\<rparr>)]"

text \<open>The block of the report for a day, given the texts of its fields.\<close>

definition week_block :: "string \<Rightarrow> string \<Rightarrow> string \<Rightarrow> string \<Rightarrow> string \<Rightarrow> string \<Rightarrow> string" where
  "week_block date min_c max_c min_f max_f conditions =
     calendar_emoji @ '' '' @ date @ '':'' @ newline
       @ ''   '' @ thermometer_emoji @ '' Temperatura: '' @ min_c @ degree @ ''C a ''
       @ max_c @ degree @ ''C ('' @ min_f @ degree @ ''F a '' @ max_f @ degree @ ''F)''
       @ newline
       @ ''   '' @ cloud_emoji @ '' Condiciones: '' @ conditions @ newline @ newline"

definition week_blocks :: "string list" where
  "week_blocks =
     [week_block ''2025-01-01'' ''9.0'' ''14.5'' ''48.2'' ''58.1'' ''clear sky, few clouds'',
      week_block ''2025-01-02'' ''8.0'' ''11.0'' ''46.4'' ''51.8'' ''light rain'',
      week_block ''2025-01-03'' ''7.5'' ''13.0'' ''45.5'' ''55.4'' ''clear sky'',
      week_block ''2025-01-04'' ''6.0'' ''10.0'' ''42.8'' ''50.0'' ''overcast clouds'',
      week_block ''2025-01-05'' ''5.5'' ''9.5'' ''41.9'' ''49.1'' ''snow'']"

section \<open>Properties\<close>

subsection \<open>Auxiliary facts\<close>

lemma raising_Inr [simp]: "raising (Inr v) k = k v"
  by (simp add: raising_def)

lemma raising_Inl [simp]: "raising (Inl e) k = Inl e"
  by (simp add: raising_def)

lemma raising_eq_Inr: "raising r k = Inr d \<longleftrightarrow> (\<exists>v. r = Inr v \<and> k v = Inr d)"
  by (cases r) auto

lemma is_success_success [simp]: "is_success (success r)"
  by (simp add: is_success_def success_def)

lemma is_failure_failure [simp]: "is_failure (failure m)"
  by (simp add: is_failure_def failure_def)

lemma not_success_and_failure: "\<not> (is_success d \<and> is_failure d)"
  by (auto simp: is_success_def is_failure_def)

lemma float_of_int_9: "float_of_int 9 = Inr (FNum 9 0)"
  by code_simp

lemma float_of_int_5: "float_of_int 5 = Inr (FNum 5 0)"
  by code_simp

lemma float_of_int_32: "float_of_int 32 = Inr (FNum 1 5)"
  by code_simp

text \<open>On a float the conversion to Fahrenheit never raises.\<close>

lemma fahrenheit_float:
  "fahrenheit (PFloat c) = Inr (PFloat (fadd (fdiv (fmul c (FNum 9 0)) (FNum 5 0)) (FNum 1 5)))"
  by (simp add: fahrenheit_def py_mul_def py_truediv_def py_add_def float_of_int_9 float_of_int_5
      float_of_int_32 is_zero_def)

lemma weather_report_Inr: "weather_report w city resp = Inr d \<Longrightarrow> is_success d"
  by (auto simp: weather_report_def raising_eq_Inr)

lemma time_report_Inr: "time_report w city resp = Inr d \<Longrightarrow> is_success d \<or> is_failure d"
  by (auto simp: time_report_def raising_eq_Inr split: if_splits)

lemma forecast_report_Inr: "forecast_report w city resp = Inr d \<Longrightarrow> is_success d"
  by (auto simp: forecast_report_def raising_eq_Inr)

lemma get_weather_variant:
  "is_success (fst (get_weather w city)) \<or> is_failure (fst (get_weather w city))"
  by (auto simp: get_weather_def get_weather_try_def requests_get_def
      split: sum.splits prod.splits dest: weather_report_Inr)

lemma get_forecast_variant:
  "is_success (fst (get_forecast w city)) \<or> is_failure (fst (get_forecast w city))"
  by (auto simp: get_forecast_def get_forecast_try_def requests_get_def
      split: sum.splits prod.splits dest: forecast_report_Inr)

lemma get_current_time_variant:
  "is_success (fst (get_current_time w city)) \<or> is_failure (fst (get_current_time w city))"
  by (auto simp: get_current_time_def get_current_time_try_def requests_get_def Let_def
      split: sum.splits prod.splits if_splits dest: time_report_Inr)

subsection \<open>The weather report\<close>



subsection \<open>The two shapes of a result\<close>

text \<open>
  Claim C2. Whatever the city and whatever the providers answer, each of \<^verbatim>\<open>get_weather\<close>,
  \<^verbatim>\<open>get_current_time\<close> and \<^verbatim>\<open>get_forecast\<close> returns a dict of exactly one of the two
  shapes: status \<^verbatim>\<open>"success"\<close> with a \<^verbatim>\<open>report\<close> and no \<^verbatim>\<open>error_message\<close>, or status
  \<^verbatim>\<open>"error"\<close> with an \<^verbatim>\<open>error_message\<close> and no \<^verbatim>\<open>report\<close>.
\<close>

theorem result_is_one_variant:
  "(is_success (fst (get_weather w city)) \<noteq> is_failure (fst (get_weather w city))) \<and>
   (is_success (fst (get_current_time w city)) \<noteq> is_failure (fst (get_current_time w city))) \<and>
   (is_success (fst (get_forecast w city)) \<noteq> is_failure (fst (get_forecast w city)))"
  using get_weather_variant [of w city] get_current_time_variant [of w city]
    get_forecast_variant [of w city] not_success_and_failure
  by blast

theorem result_is_one_variant_witness:
  "is_success (fst (get_weather london_world ''London'')) \<and>
   \<not> is_failure (fst (get_weather london_world ''London'')) \<and>
   is_failure (fst (get_current_time offline_world ''Paris'')) \<and>
   \<not> is_success (fst (get_current_time offline_world ''Paris'')) \<and>
   is_failure (fst (get_forecast (status_world 500) ''Lima'')) \<and>
   \<not> is_success (fst (get_forecast (status_world 500) ''Lima''))"
proof -
  have "is_success (fst (get_weather london_world ''London''))"
    by code_simp
  moreover have "is_failure (fst (get_current_time offline_world ''Paris''))"
    by code_simp
  moreover have "is_failure (fst (get_forecast (status_world 500) ''Lima''))"
    by code_simp
  ultimately show ?thesis
    using result_is_one_variant [of london_world "''London''"]
      result_is_one_variant [of offline_world "''Paris''"]
      result_is_one_variant [of "status_world 500" "''Lima''"]
    by blast
qed

subsection \<open>Status codes other than 200\<close>

lemma sublist_suffix: "sublist xs (ps @ xs)"
  using sublist_appendI [of xs ps "[]"] by simp

lemma get_weather_non_200:
  assumes "http_get w 0 (weather_url w city) = Inr resp" and "status_code resp \<noteq> 200"
  shows "get_weather w city =
           (failure (''Weather information for '' @ quoted city @ '' is not available. Error: ''
              @ str_int (status_code resp)), [weather_url w city])"
  using assms by (simp add: get_weather_def get_weather_try_def requests_get_def)

lemma get_forecast_non_200:
  assumes "env_truthy (OPENWEATHER_API_KEY w)"
    and "http_get w 0 (forecast_url w city) = Inr resp" and "status_code resp \<noteq> 200"
  shows "get_forecast w city =
           (failure (forecast_error_msg city (status_code resp)), [forecast_url w city])"
  using assms by (simp add: get_forecast_def get_forecast_try_def requests_get_def)

text \<open>
  Claim C3 says that for every status other than 200 both \<^verbatim>\<open>get_weather\<close> and
  \<^verbatim>\<open>get_forecast\<close> return the error dict with the status code in its message. For
  \<^verbatim>\<open>get_forecast\<close> this fails at 401: the branch for 401 replaces the message by a fixed
  text that does not hold the code.
\<close>

theorem forecast_401_counterexample:
  "http_get (status_world 401) 0 (forecast_url (status_world 401) ''London'') = Inr (status_response 401) \<and>
   status_code (status_response 401) = 401 \<and>
   fst (get_forecast (status_world 401) ''London'')
     = failure (''API key inv'' @ a_acute @ ''lida o no configurada correctamente'') \<and>
   \<not> sublist (str_int 401) (''API key inv'' @ a_acute @ ''lida o no configurada correctamente'')"
  by code_simp

text \<open>
  Claim C3 as amended. For every status other than 200, \<^verbatim>\<open>get_weather\<close> returns the error
  dict whose message holds the status code. With the API key set, \<^verbatim>\<open>get_forecast\<close> returns
  the error dict too; its message holds the status code for every status other than 200, 401
  and 404, it is the fixed invalid-key text for 401 and the city-not-found text with the
  city for 404.
\<close>

theorem non_200_status_in_message:
  "(http_get w 0 (weather_url w city) = Inr resp \<and> status_code resp \<noteq> 200 \<longrightarrow>
      (\<exists>m. fst (get_weather w city) = failure m \<and> sublist (str_int (status_code resp)) m)) \<and>
   (env_truthy (OPENWEATHER_API_KEY w) \<and> http_get w 0 (forecast_url w city) = Inr resp' \<and>
    status_code resp' \<noteq> 200 \<longrightarrow>
      (\<exists>m. fst (get_forecast w city) = failure m \<and>
         (if status_code resp' = 401 then
            m = ''API key inv'' @ a_acute @ ''lida o no configurada correctamente''
          else if status_code resp' = 404 then m = ''No se encontr'' @ o_acute @ '' la ciudad: '' @ city
          else sublist (str_int (status_code resp')) m)))"
proof (intro conjI impI)
  assume "http_get w 0 (weather_url w city) = Inr resp \<and> status_code resp \<noteq> 200"
  then show "\<exists>m. fst (get_weather w city) = failure m \<and> sublist (str_int (status_code resp)) m"
    using get_weather_non_200 [of w city resp] sublist_suffix
    by (metis append.assoc fst_conv)
next
  assume a: "env_truthy (OPENWEATHER_API_KEY w) \<and> http_get w 0 (forecast_url w city) = Inr resp' \<and>
    status_code resp' \<noteq> 200"
  then have "fst (get_forecast w city) = failure (forecast_error_msg city (status_code resp'))"
    using get_forecast_non_200 [of w city resp'] by simp
  moreover have "sublist (str_int s) (''Forecast information for '' @ quoted city @ '' is not available. Error: '' @ str_int s)" for s
    using sublist_suffix [of "str_int s" "''Forecast information for '' @ quoted city @ '' is not available. Error: ''"] by simp
  ultimately show "\<exists>m. fst (get_forecast w city) = failure m \<and>
         (if status_code resp' = 401 then
            m = ''API key inv'' @ a_acute @ ''lida o no configurada correctamente''
          else if status_code resp' = 404 then m = ''No se encontr'' @ o_acute @ '' la ciudad: '' @ city
          else sublist (str_int (status_code resp')) m)"
    by (auto simp: forecast_error_msg_def Let_def)
qed

theorem non_200_status_in_message_witness:
  "(\<exists>m. fst (get_weather (status_world 401) ''London'') = failure m \<and> sublist ''401'' m) \<and>
   (\<exists>m. fst (get_forecast (status_world 500) ''London'') = failure m \<and> sublist ''500'' m) \<and>
   fst (get_forecast (status_world 404) ''London'') = failure (''No se encontr'' @ o_acute @ '' la ciudad: London'')"
proof -
  have k: "env_truthy (OPENWEATHER_API_KEY (status_world s))" for s
    by (simp add: status_world_def example_world_def env_truthy_def)
  have h: "http_get (status_world s) 0 u = Inr (status_response s)" for s u
    by (simp add: status_world_def example_world_def)
  have c: "status_code (status_response s) = s" for s
    by (simp add: status_response_def)
  have s401: "str_int 401 = ''401''" by code_simp
  have s500: "str_int 500 = ''500''" by code_simp
  from non_200_status_in_message [of "status_world 401" "''London''" "status_response 401" "status_response 401"]
  have "\<exists>m. fst (get_weather (status_world 401) ''London'') = failure m \<and> sublist ''401'' m"
    by (simp add: h c s401)
  moreover
  from non_200_status_in_message [of "status_world 500" "''London''" "status_response 500" "status_response 500"]
  have "\<exists>m. fst (get_forecast (status_world 500) ''London'') = failure m \<and> sublist ''500'' m"
    by (simp add: h c k s500)
  moreover
  from non_200_status_in_message [of "status_world 404" "''London''" "status_response 404" "status_response 404"]
  have "fst (get_forecast (status_world 404) ''London'') = failure (''No se encontr'' @ o_acute @ '' la ciudad: London'')"
    by (simp add: h c k)
  ultimately show ?thesis by blast
qed

subsection \<open>The missing API key\<close>

lemma forecast_report_not_failure: "forecast_report w city resp \<noteq> Inr (failure m)"
  by (auto simp: forecast_report_def raising_eq_Inr success_def failure_def)

text \<open>
  Claim C5. When \<^verbatim>\<open>OPENWEATHER_API_KEY\<close> is absent (unset, or empty), \<^verbatim>\<open>get_forecast\<close> returns
  the error dict with the missing-key message and requests no URL. The message is its own:
  with the key set, \<^verbatim>\<open>get_forecast\<close> requests the forecast URL and never returns that
  message.
\<close>

theorem forecast_needs_key:
  "(\<not> env_truthy (OPENWEATHER_API_KEY w) \<longrightarrow>
      get_forecast w city = (failure missing_key_message, [])) \<and>
   (env_truthy (OPENWEATHER_API_KEY w) \<longrightarrow>
      fst (get_forecast w city) \<noteq> failure missing_key_message \<and>
      snd (get_forecast w city) = [forecast_url w city])"
proof (intro conjI impI)
  assume "\<not> env_truthy (OPENWEATHER_API_KEY w)"
  then show "get_forecast w city = (failure missing_key_message, [])"
    by (simp add: get_forecast_def get_forecast_try_def missing_key_message_def)
next
  assume k: "env_truthy (OPENWEATHER_API_KEY w)"
  show "fst (get_forecast w city) \<noteq> failure missing_key_message"
    using k forecast_report_not_failure [of w city _ missing_key_message]
    by (auto simp: get_forecast_def get_forecast_try_def requests_get_def missing_key_message_def
        failure_def forecast_error_msg_def Let_def
        split: sum.splits prod.splits if_splits)
  show "snd (get_forecast w city) = [forecast_url w city]"
    using k
    by (auto simp: get_forecast_def get_forecast_try_def requests_get_def
        split: sum.splits prod.splits if_splits)
qed

theorem forecast_needs_key_witness:
  "get_forecast keyless_world ''London'' = (failure missing_key_message, []) \<and>
   get_forecast (london_world\<lparr>OPENWEATHER_API_KEY := Some []\<rparr>) ''London'' = (failure missing_key_message, []) \<and>
   fst (get_forecast (status_world 401) ''London'') \<noteq> failure missing_key_message \<and>
   snd (get_forecast (status_world 401) ''London'') = [forecast_url (status_world 401) ''London'']"
proof -
  have 1: "\<not> env_truthy (OPENWEATHER_API_KEY keyless_world)"
    by (simp add: keyless_world_def env_truthy_def)
  have 2: "\<not> env_truthy (OPENWEATHER_API_KEY (london_world\<lparr>OPENWEATHER_API_KEY := Some []\<rparr>))"
    by (simp add: env_truthy_def)
  have 3: "env_truthy (OPENWEATHER_API_KEY (status_world 401))"
    by (simp add: status_world_def example_world_def env_truthy_def)
  show ?thesis
    using forecast_needs_key [of keyless_world "''London''"]
      forecast_needs_key [of "london_world\<lparr>OPENWEATHER_API_KEY := Some []\<rparr>" "''London''"]
      forecast_needs_key [of "status_world 401" "''London''"] 1 2 3
    by blast
qed

subsection \<open>The order of the two requests of get_current_time\<close>

lemma strftime_now_format:
  "strftime dt ''%Y-%m-%d %H:%M:%S %Z'' =
     zero_pad 4 (year dt) @ ''-'' @ zero_pad 2 (month dt) @ ''-'' @ zero_pad 2 (day dt) @ '' ''
       @ zero_pad 2 (hour dt) @ '':'' @ zero_pad 2 (minute dt) @ '':'' @ zero_pad 2 (second dt)
       @ '' '' @ (case tzname dt of None \<Rightarrow> [] | Some n \<Rightarrow> n)"
  by (simp add: directive_def)

lemma strftime_date_format:
  "strftime dt ''%Y-%m-%d'' =
     zero_pad 4 (year dt) @ ''-'' @ zero_pad 2 (month dt) @ ''-'' @ zero_pad 2 (day dt)"
  by (simp add: directive_def)

text \<open>What the first element of a geocoding result must be for a coordinate to be read.\<close>

lemma getitem_0_getitem_str:
  "getitem_0 v = Inr g \<Longrightarrow> getitem_str g k = Inr x \<Longrightarrow> \<exists>gs. v = JArr (g # gs)"
  by (auto simp: getitem_0_def getitem_str_def split: json.splits list.splits)

lemma get_current_time_try_calls:
  "snd (get_current_time_try w city []) = [geo_url w city] \<or>
   (\<exists>resp g gs lat lon.
      http_get w 0 (geo_url w city) = Inr resp \<and> status_code resp = 200 \<and>
      json_body resp = Inr (JArr (g # gs)) \<and>
      getitem_str g ''lat'' = Inr lat \<and> getitem_str g ''lon'' = Inr lon \<and>
      snd (get_current_time_try w city []) = [geo_url w city, tz_url w lat lon])"
  by (auto simp: get_current_time_try_def requests_get_def raising_eq_Inr
      split: sum.splits prod.splits if_splits; blast dest: getitem_0_getitem_str)

lemma snd_get_current_time: "snd (get_current_time w city) = snd (get_current_time_try w city [])"
  by (simp add: get_current_time_def split: prod.splits sum.splits)

lemma get_current_time_geo_raises:
  assumes "http_get w 0 (geo_url w city) = Inl e"
  shows "get_current_time w city =
           (failure (''Error getting time data: '' @ str_exn w e), [geo_url w city])"
  using assms by (simp add: get_current_time_def get_current_time_try_def requests_get_def)

lemma get_current_time_geo_status:
  assumes "http_get w 0 (geo_url w city) = Inr resp" and "status_code resp \<noteq> 200"
  shows "get_current_time w city =
           (failure (''Could not find coordinates for '' @ city), [geo_url w city])"
  using assms by (simp add: get_current_time_def get_current_time_try_def requests_get_def)

lemma get_current_time_geo_falsy:
  assumes "http_get w 0 (geo_url w city) = Inr resp" and "status_code resp = 200"
    and "json_body resp = Inr geo_data" and "\<not> truthy geo_data"
  shows "get_current_time w city =
           (failure (''City '' @ quoted city @ '' not found''), [geo_url w city])"
  using assms by (simp add: get_current_time_def get_current_time_try_def requests_get_def)

text \<open>
  Claim C6. \<^verbatim>\<open>get_current_time\<close> requests the geocoding URL first. It requests a second URL,
  the time zone lookup, only when the geocoding request was answered with status 200 and a
  list that is not empty (whose first element has \<^verbatim>\<open>lat\<close> and \<^verbatim>\<open>lon\<close>). When the geocoding
  request raises, is answered with another status, or is answered with the empty list, the
  geocoding URL is the only one requested and the error dict is returned.
\<close>

theorem timezone_call_after_geocoding:
  "(snd (get_current_time w city) = [geo_url w city] \<or>
    (\<exists>resp g gs lat lon.
       http_get w 0 (geo_url w city) = Inr resp \<and> status_code resp = 200 \<and>
       json_body resp = Inr (JArr (g # gs)) \<and>
       getitem_str g ''lat'' = Inr lat \<and> getitem_str g ''lon'' = Inr lon \<and>
       snd (get_current_time w city) = [geo_url w city, tz_url w lat lon])) \<and>
   (\<forall>e. http_get w 0 (geo_url w city) = Inl e \<longrightarrow>
      get_current_time w city =
        (failure (''Error getting time data: '' @ str_exn w e), [geo_url w city])) \<and>
   (\<forall>resp. http_get w 0 (geo_url w city) = Inr resp \<and> status_code resp \<noteq> 200 \<longrightarrow>
      get_current_time w city =
        (failure (''Could not find coordinates for '' @ city), [geo_url w city])) \<and>
   (\<forall>resp. http_get w 0 (geo_url w city) = Inr resp \<and> status_code resp = 200 \<and>
      json_body resp = Inr (JArr []) \<longrightarrow>
      get_current_time w city =
        (failure (''City '' @ quoted city @ '' not found''), [geo_url w city]))"
proof (intro conjI allI impI)
  show "snd (get_current_time w city) = [geo_url w city] \<or>
    (\<exists>resp g gs lat lon.
       http_get w 0 (geo_url w city) = Inr resp \<and> status_code resp = 200 \<and>
       json_body resp = Inr (JArr (g # gs)) \<and>
       getitem_str g ''lat'' = Inr lat \<and> getitem_str g ''lon'' = Inr lon \<and>
       snd (get_current_time w city) = [geo_url w city, tz_url w lat lon])"
    using get_current_time_try_calls [of w city] by (simp add: snd_get_current_time)
next
  fix e assume "http_get w 0 (geo_url w city) = Inl e"
  then show "get_current_time w city =
        (failure (''Error getting time data: '' @ str_exn w e), [geo_url w city])"
    by (rule get_current_time_geo_raises)
next
  fix resp assume "http_get w 0 (geo_url w city) = Inr resp \<and> status_code resp \<noteq> 200"
  then show "get_current_time w city =
        (failure (''Could not find coordinates for '' @ city), [geo_url w city])"
    by (simp add: get_current_time_geo_status)
next
  fix resp assume "http_get w 0 (geo_url w city) = Inr resp \<and> status_code resp = 200 \<and>
      json_body resp = Inr (JArr [])"
  then show "get_current_time w city =
        (failure (''City '' @ quoted city @ '' not found''), [geo_url w city])"
    using get_current_time_geo_falsy [of w city resp "JArr []"] by simp
qed

theorem timezone_call_after_geocoding_witness:
  "get_current_time nowhere_world ''Atlantis'' =
     (failure (''City '' @ quoted ''Atlantis'' @ '' not found''),
      [''http://api.openweathermap.org/geo/1.0/direct?q=Atlantis&limit=1&appid=KEY1'']) \<and>
   get_current_time (status_world 500) ''Paris'' =
     (failure ''Could not find coordinates for Paris'',
      [''http://api.openweathermap.org/geo/1.0/direct?q=Paris&limit=1&appid=KEY1'']) \<and>
   get_current_time offline_world ''Paris'' =
     (failure ''Error getting time data: Connection refused'',
      [''http://api.openweathermap.org/geo/1.0/direct?q=Paris&limit=1&appid=KEY1'']) \<and>
   snd (get_current_time paris_world ''Paris'') =
     [''http://api.openweathermap.org/geo/1.0/direct?q=Paris&limit=1&appid=KEY1'',
      ''http://api.timezonedb.com/v2.1/get-time-zone?key=KEY2&format=json&by=position&lat=48.85&lng=2.35'']"
proof -
  have g1: "geo_url nowhere_world ''Atlantis''
              = ''http://api.openweathermap.org/geo/1.0/direct?q=Atlantis&limit=1&appid=KEY1''"
    by (simp add: geo_url_def nowhere_world_def example_world_def fstr_env_def)
  have g2: "geo_url (status_world 500) ''Paris''
              = ''http://api.openweathermap.org/geo/1.0/direct?q=Paris&limit=1&appid=KEY1''"
    by (simp add: geo_url_def status_world_def example_world_def fstr_env_def)
  have g3: "geo_url offline_world ''Paris''
              = ''http://api.openweathermap.org/geo/1.0/direct?q=Paris&limit=1&appid=KEY1''"
    by (simp add: geo_url_def offline_world_def example_world_def fstr_env_def)
  have g4: "geo_url paris_world ''Paris''
              = ''http://api.openweathermap.org/geo/1.0/direct?q=Paris&limit=1&appid=KEY1''"
    by (simp add: geo_url_def paris_world_def example_world_def fstr_env_def)
  have h1: "http_get nowhere_world 0 u = Inr \<lparr>status_code = 200, json_body = Inr (JArr [])\<rparr>" for u
    by (simp add: nowhere_world_def example_world_def)
  have h2: "http_get (status_world 500) 0 u = Inr (status_response 500)" for u
    by (simp add: status_world_def example_world_def)
  have h3: "http_get offline_world 0 u = Inl (LibError ''Connection refused'')" for u
    by (simp add: offline_world_def example_world_def)
  have h4: "http_get paris_world 0 u = Inr paris_geo_response" for u
    by (simp add: paris_world_def example_world_def)
  have s3: "str_exn offline_world (LibError ''Connection refused'') = ''Connection refused''"
    by (simp add: offline_world_def example_world_def example_str_exn_def)
  have n4: "snd (get_current_time paris_world ''Paris'') \<noteq> [geo_url paris_world ''Paris'']"
    by code_simp
  have u4: "tz_url paris_world lat lon = ''http://api.timezonedb.com/v2.1/get-time-zone?key=KEY2&format=json&by=position&lat=48.85&lng=2.35''"
    if "getitem_str g ''lat'' = Inr lat" "getitem_str g ''lon'' = Inr lon"
      "json_body paris_geo_response = Inr (JArr (g # gs))" for g gs lat lon
    using that
    by (auto simp: paris_geo_response_def getitem_str_def tz_url_def paris_world_def
        example_world_def fstr_env_def fstr_json_def paris_lat_def paris_lon_def)
  have a: "get_current_time nowhere_world ''Atlantis'' =
     (failure (''City '' @ quoted ''Atlantis'' @ '' not found''),
      [''http://api.openweathermap.org/geo/1.0/direct?q=Atlantis&limit=1&appid=KEY1''])"
    using timezone_call_after_geocoding [of nowhere_world "''Atlantis''"] by (simp add: g1 h1)
  have b: "get_current_time (status_world 500) ''Paris'' =
     (failure ''Could not find coordinates for Paris'',
      [''http://api.openweathermap.org/geo/1.0/direct?q=Paris&limit=1&appid=KEY1''])"
    using timezone_call_after_geocoding [of "status_world 500" "''Paris''"]
    by (simp add: g2 h2 status_response_def)
  have c: "get_current_time offline_world ''Paris'' =
     (failure ''Error getting time data: Connection refused'',
      [''http://api.openweathermap.org/geo/1.0/direct?q=Paris&limit=1&appid=KEY1''])"
    using timezone_call_after_geocoding [of offline_world "''Paris''"] by (simp add: g3 h3 s3)
  have d: "snd (get_current_time paris_world ''Paris'') =
     [''http://api.openweathermap.org/geo/1.0/direct?q=Paris&limit=1&appid=KEY1'',
      ''http://api.timezonedb.com/v2.1/get-time-zone?key=KEY2&format=json&by=position&lat=48.85&lng=2.35'']"
  proof -
    from timezone_call_after_geocoding [of paris_world "''Paris''"] n4
    obtain resp g gs lat lon where
      "http_get paris_world 0 (geo_url paris_world ''Paris'') = Inr resp"
      "json_body resp = Inr (JArr (g # gs))"
      "getitem_str g ''lat'' = Inr lat" "getitem_str g ''lon'' = Inr lon"
      "snd (get_current_time paris_world ''Paris'') = [geo_url paris_world ''Paris'', tz_url paris_world lat lon]"
      by blast
    then show ?thesis
      using u4 [of g lat lon gs] by (simp add: h4 g4)
  qed
  from a b c d show ?thesis by blast
qed

subsection \<open>The report of get_current_time\<close>

lemma digit_char_digit: "0 \<le> d \<Longrightarrow> d < 10 \<Longrightarrow> digit_char d \<in> set ''0123456789''"
proof -
  assume "0 \<le> d" "d < 10"
  then have "nat d < length ''0123456789''" by simp
  then show ?thesis unfolding digit_char_def by (rule nth_mem)
qed

lemma str_nat_digits: "0 \<le> n \<Longrightarrow> set (str_nat n) \<subseteq> set ''0123456789''"
proof (induction n rule: str_nat.induct)
  case (1 n)
  show ?case
  proof (cases "n < 10")
    case True
    with "1.prems" show ?thesis
      using digit_char_digit [of n] by (simp add: str_nat.simps [of n])
  next
    case False
    with "1.prems" have "0 \<le> n div 10" by simp
    with "1.IH" False have "set (str_nat (n div 10)) \<subseteq> set ''0123456789''" by simp
    moreover have "digit_char (n mod 10) \<in> set ''0123456789''"
      by (rule digit_char_digit) simp_all
    ultimately show ?thesis
      using False by (simp add: str_nat.simps [of n])
  qed
qed

lemma str_nat_length: "0 \<le> n \<Longrightarrow> n < 10 ^ w \<Longrightarrow> 0 < w \<Longrightarrow> length (str_nat n) \<le> w"
proof (induction n arbitrary: w rule: str_nat.induct)
  case (1 n)
  show ?case
  proof (cases "n < 10")
    case True
    with "1.prems" show ?thesis by (simp add: str_nat.simps [of n])
  next
    case False
    from "1.prems" obtain v where w: "w = Suc v" by (cases w) auto
    with "1.prems" False have v: "0 < v" by (cases v) auto
    from "1.prems" w have "n < 10 * 10 ^ v" by simp
    then have "n div 10 < 10 ^ v" by arith
    with "1.IH" [OF False _ _ v] "1.prems" have "length (str_nat (n div 10)) \<le> v" by simp
    with False w show ?thesis by (simp add: str_nat.simps [of n])
  qed
qed

text \<open>A field within its range is printed with exactly \<open>w\<close> decimal digits.\<close>

lemma zero_pad_digits:
  assumes "0 \<le> n" and "n < 10 ^ w" and "0 < w"
  shows "length (zero_pad w n) = w \<and> set (zero_pad w n) \<subseteq> set ''0123456789''"
  using str_nat_length [OF assms] str_nat_digits [OF assms(1)]
  by (auto simp: zero_pad_def)

lemma time_report_success:
  "time_report w city tz_response = Inr d \<Longrightarrow> is_success d \<Longrightarrow>
     \<exists>tz_data zoneName tz dt.
       status_code tz_response = 200 \<and> json_body tz_response = Inr tz_data \<and>
       getitem_str tz_data ''status'' = Inr (JStr ''OK'') \<and>
       getitem_str tz_data ''zoneName'' = Inr zoneName \<and>
       ZoneInfo w zoneName = Inr tz \<and> now w tz = Inr dt \<and>
       d = success (''The current time in '' @ city @ '' is ''
                      @ strftime dt ''%Y-%m-%d %H:%M:%S %Z'')"
  by (auto simp: time_report_def raising_eq_Inr is_success_def failure_def split: if_splits)

lemma get_current_time_try_success:
  assumes "get_current_time_try w city [] = (Inr d, calls)" and "is_success d"
  shows "\<exists>geo_resp g gs lat lon tz_resp.
           http_get w 0 (geo_url w city) = Inr geo_resp \<and> status_code geo_resp = 200 \<and>
           json_body geo_resp = Inr (JArr (g # gs)) \<and>
           getitem_str g ''lat'' = Inr lat \<and> getitem_str g ''lon'' = Inr lon \<and>
           http_get w 1 (tz_url w lat lon) = Inr tz_resp \<and>
           time_report w city tz_resp = Inr d \<and>
           calls = [geo_url w city, tz_url w lat lon]"
  using assms
  by (auto simp: get_current_time_try_def requests_get_def raising_eq_Inr is_success_def failure_def
      split: sum.splits prod.splits if_splits; blast dest: getitem_0_getitem_str)

lemma get_current_time_success_try:
  "is_success (fst (get_current_time w city)) \<Longrightarrow>
     \<exists>d calls. get_current_time_try w city [] = (Inr d, calls) \<and> is_success d \<and>
       get_current_time w city = (d, calls)"
  by (auto simp: get_current_time_def is_success_def failure_def split: prod.splits sum.splits)

text \<open>
  Claim C9. \<^verbatim>\<open>get_current_time\<close> returns the success dict only when the geocoding request
  was answered with status 200 and a list that is not empty, the time zone request was
  answered with status 200, and the \<^verbatim>\<open>status\<close> field of that answer is \<^verbatim>\<open>"OK"\<close>. The report is
  then \<^verbatim>\<open>The current time in {city} is \<close> followed by the time \<^verbatim>\<open>now\<close> in the zone named by
  \<^verbatim>\<open>zoneName\<close>: year, month and day joined by hyphens, a space, hour, minute and second
  joined by colons, a space, and the abbreviation of the zone. By \<open>zero_pad_digits\<close> the
  year is printed with four digits and the other fields with two.
\<close>

theorem current_time_success:
  "(is_success (fst (get_current_time w city)) \<longrightarrow>
      (\<exists>geo_resp g gs lat lon tz_resp tz_data zoneName tz dt.
         http_get w 0 (geo_url w city) = Inr geo_resp \<and> status_code geo_resp = 200 \<and>
         json_body geo_resp = Inr (JArr (g # gs)) \<and>
         getitem_str g ''lat'' = Inr lat \<and> getitem_str g ''lon'' = Inr lon \<and>
         http_get w 1 (tz_url w lat lon) = Inr tz_resp \<and> status_code tz_resp = 200 \<and>
         json_body tz_resp = Inr tz_data \<and>
         getitem_str tz_data ''status'' = Inr (JStr ''OK'') \<and>
         getitem_str tz_data ''zoneName'' = Inr zoneName \<and>
         ZoneInfo w zoneName = Inr tz \<and> now w tz = Inr dt \<and>
         fst (get_current_time w city) =
           success (''The current time in '' @ city @ '' is ''
             @ zero_pad 4 (year dt) @ ''-'' @ zero_pad 2 (month dt) @ ''-'' @ zero_pad 2 (day dt)
             @ '' '' @ zero_pad 2 (hour dt) @ '':'' @ zero_pad 2 (minute dt) @ '':''
             @ zero_pad 2 (second dt) @ '' ''
             @ (case tzname dt of None \<Rightarrow> [] | Some abbreviation \<Rightarrow> abbreviation))))"
proof
  assume "is_success (fst (get_current_time w city))"
  then obtain d calls where t: "get_current_time_try w city [] = (Inr d, calls)"
    and s: "is_success d" and r: "get_current_time w city = (d, calls)"
    using get_current_time_success_try by blast
  from get_current_time_try_success [OF t s] obtain geo_resp g gs lat lon tz_resp where
    1: "http_get w 0 (geo_url w city) = Inr geo_resp" "status_code geo_resp = 200"
       "json_body geo_resp = Inr (JArr (g # gs))"
       "getitem_str g ''lat'' = Inr lat" "getitem_str g ''lon'' = Inr lon"
       "http_get w 1 (tz_url w lat lon) = Inr tz_resp"
    and tr: "time_report w city tz_resp = Inr d"
    by blast
  from time_report_success [OF tr s] obtain tz_data zoneName tz dt where
    2: "status_code tz_resp = 200" "json_body tz_resp = Inr tz_data"
       "getitem_str tz_data ''status'' = Inr (JStr ''OK'')"
       "getitem_str tz_data ''zoneName'' = Inr zoneName"
       "ZoneInfo w zoneName = Inr tz" "now w tz = Inr dt"
    and d: "d = success (''The current time in '' @ city @ '' is ''
                      @ strftime dt ''%Y-%m-%d %H:%M:%S %Z'')"
    by blast
  have "fst (get_current_time w city) =
           success (''The current time in '' @ city @ '' is ''
             @ zero_pad 4 (year dt) @ ''-'' @ zero_pad 2 (month dt) @ ''-'' @ zero_pad 2 (day dt)
             @ '' '' @ zero_pad 2 (hour dt) @ '':'' @ zero_pad 2 (minute dt) @ '':''
             @ zero_pad 2 (second dt) @ '' ''
             @ (case tzname dt of None \<Rightarrow> [] | Some abbreviation \<Rightarrow> abbreviation))"
    unfolding r d strftime_now_format by simp
  with 1 2 show "\<exists>geo_resp g gs lat lon tz_resp tz_data zoneName tz dt.
         http_get w 0 (geo_url w city) = Inr geo_resp \<and> status_code geo_resp = 200 \<and>
         json_body geo_resp = Inr (JArr (g # gs)) \<and>
         getitem_str g ''lat'' = Inr lat \<and> getitem_str g ''lon'' = Inr lon \<and>
         http_get w 1 (tz_url w lat lon) = Inr tz_resp \<and> status_code tz_resp = 200 \<and>
         json_body tz_resp = Inr tz_data \<and>
         getitem_str tz_data ''status'' = Inr (JStr ''OK'') \<and>
         getitem_str tz_data ''zoneName'' = Inr zoneName \<and>
         ZoneInfo w zoneName = Inr tz \<and> now w tz = Inr dt \<and>
         fst (get_current_time w city) =
           success (''The current time in '' @ city @ '' is ''
             @ zero_pad 4 (year dt) @ ''-'' @ zero_pad 2 (month dt) @ ''-'' @ zero_pad 2 (day dt)
             @ '' '' @ zero_pad 2 (hour dt) @ '':'' @ zero_pad 2 (minute dt) @ '':''
             @ zero_pad 2 (second dt) @ '' ''
             @ (case tzname dt of None \<Rightarrow> [] | Some abbreviation \<Rightarrow> abbreviation))"
    by blast
qed

theorem current_time_success_witness:
  "is_success (fst (get_current_time paris_world ''Paris'')) \<and>
   fst (get_current_time paris_world ''Paris'')
     = success ''The current time in Paris is 2025-01-15 13:04:05 CET'' \<and>
   (\<exists>geo_resp g gs lat lon tz_resp tz_data zoneName tz dt.
      http_get paris_world 0 (geo_url paris_world ''Paris'') = Inr geo_resp \<and>
      status_code geo_resp = 200 \<and>
      json_body geo_resp = Inr (JArr (g # gs)) \<and>
      getitem_str g ''lat'' = Inr lat \<and> getitem_str g ''lon'' = Inr lon \<and>
      http_get paris_world 1 (tz_url paris_world lat lon) = Inr tz_resp \<and>
      status_code tz_resp = 200 \<and>
      json_body tz_resp = Inr tz_data \<and>
      getitem_str tz_data ''status'' = Inr (JStr ''OK'') \<and>
      getitem_str tz_data ''zoneName'' = Inr zoneName \<and>
      ZoneInfo paris_world zoneName = Inr tz \<and> now paris_world tz = Inr dt \<and>
      fst (get_current_time paris_world ''Paris'') =
        success (''The current time in '' @ ''Paris'' @ '' is ''
          @ zero_pad 4 (year dt) @ ''-'' @ zero_pad 2 (month dt) @ ''-'' @ zero_pad 2 (day dt)
          @ '' '' @ zero_pad 2 (hour dt) @ '':'' @ zero_pad 2 (minute dt) @ '':''
          @ zero_pad 2 (second dt) @ '' ''
          @ (case tzname dt of None \<Rightarrow> [] | Some abbreviation \<Rightarrow> abbreviation)))"
proof (intro conjI)
  show s: "is_success (fst (get_current_time paris_world ''Paris''))"
    by code_simp
  show "fst (get_current_time paris_world ''Paris'')
     = success ''The current time in Paris is 2025-01-15 13:04:05 CET''"
    by code_simp
  show "\<exists>geo_resp g gs lat lon tz_resp tz_data zoneName tz dt.
      http_get paris_world 0 (geo_url paris_world ''Paris'') = Inr geo_resp \<and>
      status_code geo_resp = 200 \<and>
      json_body geo_resp = Inr (JArr (g # gs)) \<and>
      getitem_str g ''lat'' = Inr lat \<and> getitem_str g ''lon'' = Inr lon \<and>
      http_get paris_world 1 (tz_url paris_world lat lon) = Inr tz_resp \<and>
      status_code tz_resp = 200 \<and>
      json_body tz_resp = Inr tz_data \<and>
      getitem_str tz_data ''status'' = Inr (JStr ''OK'') \<and>
      getitem_str tz_data ''zoneName'' = Inr zoneName \<and>
      ZoneInfo paris_world zoneName = Inr tz \<and> now paris_world tz = Inr dt \<and>
      fst (get_current_time paris_world ''Paris'') =
        success (''The current time in '' @ ''Paris'' @ '' is ''
          @ zero_pad 4 (year dt) @ ''-'' @ zero_pad 2 (month dt) @ ''-'' @ zero_pad 2 (day dt)
          @ '' '' @ zero_pad 2 (hour dt) @ '':'' @ zero_pad 2 (minute dt) @ '':''
          @ zero_pad 2 (second dt) @ '' ''
          @ (case tzname dt of None \<Rightarrow> [] | Some abbreviation \<Rightarrow> abbreviation))"
    by (rule current_time_success [THEN mp, OF s])
qed

subsection \<open>get_weather does not check the API key\<close>

lemma get_weather_try_calls: "snd (get_weather_try w city calls) = calls @ [weather_url w city]"
  by (simp add: get_weather_try_def requests_get_def split: sum.splits)

lemma snd_get_weather: "snd (get_weather w city) = [weather_url w city]"
proof -
  have "snd (get_weather w city) = snd (get_weather_try w city [])"
    by (simp add: get_weather_def split: prod.splits sum.splits)
  then show ?thesis
    by (simp add: get_weather_try_calls)
qed

lemma weather_report_not_failure: "weather_report w city resp \<noteq> Inr (failure m)"
  by (auto simp: weather_report_def raising_eq_Inr success_def failure_def)

text \<open>
  Claim C10. \<^verbatim>\<open>get_weather\<close> has no check of the API key. When \<^verbatim>\<open>OPENWEATHER_API_KEY\<close> is
  not set it still requests the weather URL, with \<^verbatim>\<open>None\<close> printed as the \<^verbatim>\<open>appid\<close>, and
  never returns the missing-key error; when it returns the error dict, the request raised,
  was answered with a status other than 200, or the processing of the answer raised. In
  the same world \<^verbatim>\<open>get_forecast\<close> returns the missing-key error and requests nothing.
\<close>

theorem weather_without_key:
  assumes "OPENWEATHER_API_KEY w = None"
  shows "snd (get_weather w city) =
           [''http://api.openweathermap.org/data/2.5/weather?q='' @ city
              @ ''&appid=None&units=metric''] \<and>
         fst (get_weather w city) \<noteq> failure missing_key_message \<and>
         (is_failure (fst (get_weather w city)) \<longrightarrow>
            (\<exists>e. http_get w 0 (weather_url w city) = Inl e) \<or>
            (\<exists>resp. http_get w 0 (weather_url w city) = Inr resp \<and>
               (status_code resp \<noteq> 200 \<or> (\<exists>e. weather_report w city resp = Inl e)))) \<and>
         get_forecast w city = (failure missing_key_message, [])"
proof (intro conjI impI)
  show "snd (get_weather w city) =
           [''http://api.openweathermap.org/data/2.5/weather?q='' @ city
              @ ''&appid=None&units=metric'']"
    using assms by (simp add: snd_get_weather weather_url_def fstr_env_def)
  show "fst (get_weather w city) \<noteq> failure missing_key_message"
    using weather_report_not_failure [of w city _ missing_key_message]
    by (auto simp: get_weather_def get_weather_try_def requests_get_def missing_key_message_def
        failure_def split: sum.splits prod.splits if_splits)
  show "get_forecast w city = (failure missing_key_message, [])"
    using assms
    by (simp add: get_forecast_def get_forecast_try_def missing_key_message_def env_truthy_def)
next
  assume f: "is_failure (fst (get_weather w city))"
  show "(\<exists>e. http_get w 0 (weather_url w city) = Inl e) \<or>
            (\<exists>resp. http_get w 0 (weather_url w city) = Inr resp \<and>
               (status_code resp \<noteq> 200 \<or> (\<exists>e. weather_report w city resp = Inl e)))"
  proof (cases "http_get w 0 (weather_url w city)")
    case (Inl e)
    then show ?thesis by blast
  next
    case (Inr resp)
    show ?thesis
    proof (cases "status_code resp = 200")
      case False
      with Inr show ?thesis by blast
    next
      case True
      show ?thesis
      proof (cases "weather_report w city resp")
        case (Inl e)
        with Inr show ?thesis by blast
      next
        case report: (Inr d)
        with Inr True have "fst (get_weather w city) = d"
          by (simp add: get_weather_def get_weather_try_def requests_get_def)
        moreover from report have "is_success d" by (rule weather_report_Inr)
        ultimately show ?thesis
          using f not_success_and_failure by auto
      qed
    qed
  qed
qed

theorem weather_without_key_witness:
  "get_weather keyless_world ''London'' =
     (success (''The weather in London is clear sky with a temperature of 15.0'' @ degree
         @ ''C (59.0'' @ degree @ ''F).''),
      [''http://api.openweathermap.org/data/2.5/weather?q=London&appid=None&units=metric'']) \<and>
   get_forecast keyless_world ''London'' = (failure missing_key_message, [])"
proof -
  have k: "OPENWEATHER_API_KEY keyless_world = None"
    by (simp add: keyless_world_def)
  have "fst (get_weather keyless_world ''London'') =
     success (''The weather in London is clear sky with a temperature of 15.0'' @ degree
         @ ''C (59.0'' @ degree @ ''F).'')"
    by code_simp
  moreover have "''http://api.openweathermap.org/data/2.5/weather?q='' @ ''London''
              @ ''&appid=None&units=metric'' = ''http://api.openweathermap.org/data/2.5/weather?q=London&appid=None&units=metric''"
    by simp
  ultimately show ?thesis
    using weather_without_key [OF k, of "''London''"]
    by (metis prod.collapse)
qed

subsection \<open>Exceptions\<close>

lemma get_forecast_try_calls:
  "snd (get_forecast_try w city []) = [] \<or> snd (get_forecast_try w city []) = [forecast_url w city]"
  by (simp add: get_forecast_try_def requests_get_def split: sum.splits)

lemma snd_get_forecast: "snd (get_forecast w city) = snd (get_forecast_try w city [])"
  by (simp add: get_forecast_def split: prod.splits sum.splits)

lemma geo_url_not_tz_url: "geo_url w city \<noteq> tz_url w lat lon"
  by (simp add: geo_url_def tz_url_def)

lemma get_current_time_calls_distinct:
  "length (snd (get_current_time w city)) \<le> 2 \<and> distinct (snd (get_current_time w city))"
  using get_current_time_try_calls [of w city] geo_url_not_tz_url [of w city]
  by (auto simp: snd_get_current_time)

lemma get_weather_raised:
  "get_weather_try w city [] = (Inl e, calls) \<Longrightarrow>
     get_weather w city = (failure (''Error getting weather data: '' @ str_exn w e), calls)"
  by (simp add: get_weather_def)

lemma get_current_time_raised:
  "get_current_time_try w city [] = (Inl e, calls) \<Longrightarrow>
     get_current_time w city = (failure (''Error getting time data: '' @ str_exn w e), calls)"
  by (simp add: get_current_time_def)

lemma get_forecast_raised:
  "get_forecast_try w city [] = (Inl e, calls) \<Longrightarrow>
     get_forecast w city = (failure (''Error getting forecast data: '' @ str_exn w e), calls)"
  by (simp add: get_forecast_def)

lemma get_weather_http_raises:
  "http_get w 0 (weather_url w city) = Inl e \<Longrightarrow>
     get_weather_try w city [] = (Inl e, [weather_url w city])"
  by (simp add: get_weather_try_def requests_get_def)

lemma get_weather_json_raises:
  "http_get w 0 (weather_url w city) = Inr resp \<Longrightarrow> status_code resp = 200 \<Longrightarrow>
   json_body resp = Inl e \<Longrightarrow> get_weather_try w city [] = (Inl e, [weather_url w city])"
  by (simp add: get_weather_try_def requests_get_def weather_report_def)

lemma get_forecast_http_raises:
  "env_truthy (OPENWEATHER_API_KEY w) \<Longrightarrow> http_get w 0 (forecast_url w city) = Inl e \<Longrightarrow>
     get_forecast_try w city [] = (Inl e, [forecast_url w city])"
  by (simp add: get_forecast_try_def requests_get_def)

lemma get_forecast_json_raises:
  "env_truthy (OPENWEATHER_API_KEY w) \<Longrightarrow> http_get w 0 (forecast_url w city) = Inr resp \<Longrightarrow>
   status_code resp = 200 \<Longrightarrow> json_body resp = Inl e \<Longrightarrow>
     get_forecast_try w city [] = (Inl e, [forecast_url w city])"
  by (simp add: get_forecast_try_def requests_get_def forecast_report_def)

lemma get_current_time_geo_json_raises:
  "http_get w 0 (geo_url w city) = Inr resp \<Longrightarrow> status_code resp = 200 \<Longrightarrow>
   json_body resp = Inl e \<Longrightarrow> get_current_time_try w city [] = (Inl e, [geo_url w city])"
  by (simp add: get_current_time_try_def requests_get_def)

lemma get_current_time_tz_raises:
  "http_get w 0 (geo_url w city) = Inr resp \<Longrightarrow> status_code resp = 200 \<Longrightarrow>
   json_body resp = Inr (JArr (g # gs)) \<Longrightarrow> getitem_str g ''lat'' = Inr lat \<Longrightarrow>
   getitem_str g ''lon'' = Inr lon \<Longrightarrow> http_get w 1 (tz_url w lat lon) = Inl e \<Longrightarrow>
     get_current_time_try w city [] = (Inl e, [geo_url w city, tz_url w lat lon])"
  by (simp add: get_current_time_try_def requests_get_def getitem_0_def)


lemma snd_get_weather_length: "length (snd (get_weather w city)) \<le> 1"
  by (simp add: snd_get_weather)

lemma snd_get_forecast_length: "length (snd (get_forecast w city)) \<le> 1"
  using get_forecast_try_calls [of w city] by (auto simp: snd_get_forecast)

text \<open>
  Claim C7. Whenever the \<^verbatim>\<open>try\<close> block of one of the three functions raises an exception
  \<open>e\<close>, the function returns the error dict whose message ends with \<^verbatim>\<open>str(e)\<close>; this is
  spelled out for an HTTP request that raises and for a \<^verbatim>\<open>response.json()\<close> that raises.
  No function lets an exception through: each returns one of the two dicts. A request
  that failed is not tried again: \<^verbatim>\<open>get_weather\<close> and \<^verbatim>\<open>get_forecast\<close> request at most one
  URL, \<^verbatim>\<open>get_current_time\<close> at most two, which differ.
\<close>

theorem exceptions_are_caught:
  "(\<forall>e calls. get_weather_try w city [] = (Inl e, calls) \<longrightarrow>
      get_weather w city = (failure (''Error getting weather data: '' @ str_exn w e), calls)) \<and>
   (\<forall>e calls. get_current_time_try w city [] = (Inl e, calls) \<longrightarrow>
      get_current_time w city = (failure (''Error getting time data: '' @ str_exn w e), calls)) \<and>
   (\<forall>e calls. get_forecast_try w city [] = (Inl e, calls) \<longrightarrow>
      get_forecast w city = (failure (''Error getting forecast data: '' @ str_exn w e), calls)) \<and>
   (\<forall>e. http_get w 0 (weather_url w city) = Inl e \<longrightarrow>
      get_weather w city =
        (failure (''Error getting weather data: '' @ str_exn w e), [weather_url w city])) \<and>
   (\<forall>e. http_get w 0 (geo_url w city) = Inl e \<longrightarrow>
      get_current_time w city =
        (failure (''Error getting time data: '' @ str_exn w e), [geo_url w city])) \<and>
   (\<forall>e. env_truthy (OPENWEATHER_API_KEY w) \<and> http_get w 0 (forecast_url w city) = Inl e \<longrightarrow>
      get_forecast w city =
        (failure (''Error getting forecast data: '' @ str_exn w e), [forecast_url w city])) \<and>
   (\<forall>resp g gs lat lon e.
      http_get w 0 (geo_url w city) = Inr resp \<and> status_code resp = 200 \<and>
      json_body resp = Inr (JArr (g # gs)) \<and> getitem_str g ''lat'' = Inr lat \<and>
      getitem_str g ''lon'' = Inr lon \<and> http_get w 1 (tz_url w lat lon) = Inl e \<longrightarrow>
      get_current_time w city =
        (failure (''Error getting time data: '' @ str_exn w e),
         [geo_url w city, tz_url w lat lon])) \<and>
   (\<forall>resp e. http_get w 0 (weather_url w city) = Inr resp \<and> status_code resp = 200 \<and>
      json_body resp = Inl e \<longrightarrow>
      get_weather w city =
        (failure (''Error getting weather data: '' @ str_exn w e), [weather_url w city])) \<and>
   (\<forall>resp e. http_get w 0 (geo_url w city) = Inr resp \<and> status_code resp = 200 \<and>
      json_body resp = Inl e \<longrightarrow>
      get_current_time w city =
        (failure (''Error getting time data: '' @ str_exn w e), [geo_url w city])) \<and>
   (\<forall>resp e. env_truthy (OPENWEATHER_API_KEY w) \<and>
      http_get w 0 (forecast_url w city) = Inr resp \<and> status_code resp = 200 \<and>
      json_body resp = Inl e \<longrightarrow>
      get_forecast w city =
        (failure (''Error getting forecast data: '' @ str_exn w e), [forecast_url w city])) \<and>
   (is_success (fst (get_weather w city)) \<or> is_failure (fst (get_weather w city))) \<and>
   (is_success (fst (get_current_time w city)) \<or> is_failure (fst (get_current_time w city))) \<and>
   (is_success (fst (get_forecast w city)) \<or> is_failure (fst (get_forecast w city))) \<and>
   length (snd (get_weather w city)) \<le> 1 \<and>
   length (snd (get_forecast w city)) \<le> 1 \<and>
   length (snd (get_current_time w city)) \<le> 2 \<and>
   distinct (snd (get_current_time w city))"
proof -
  have 1: "\<forall>e calls. get_weather_try w city [] = (Inl e, calls) \<longrightarrow>
      get_weather w city = (failure (''Error getting weather data: '' @ str_exn w e), calls)"
    by (simp add: get_weather_raised)
  have 2: "\<forall>e calls. get_current_time_try w city [] = (Inl e, calls) \<longrightarrow>
      get_current_time w city = (failure (''Error getting time data: '' @ str_exn w e), calls)"
    by (simp add: get_current_time_raised)
  have 3: "\<forall>e calls. get_forecast_try w city [] = (Inl e, calls) \<longrightarrow>
      get_forecast w city = (failure (''Error getting forecast data: '' @ str_exn w e), calls)"
    by (simp add: get_forecast_raised)
  have 4: "\<forall>e. http_get w 0 (weather_url w city) = Inl e \<longrightarrow>
      get_weather w city =
        (failure (''Error getting weather data: '' @ str_exn w e), [weather_url w city])"
    by (simp add: get_weather_raised get_weather_http_raises)
  have 5: "\<forall>e. http_get w 0 (geo_url w city) = Inl e \<longrightarrow>
      get_current_time w city =
        (failure (''Error getting time data: '' @ str_exn w e), [geo_url w city])"
    by (simp add: get_current_time_geo_raises)
  have 6: "\<forall>e. env_truthy (OPENWEATHER_API_KEY w) \<and> http_get w 0 (forecast_url w city) = Inl e \<longrightarrow>
      get_forecast w city =
        (failure (''Error getting forecast data: '' @ str_exn w e), [forecast_url w city])"
    by (simp add: get_forecast_raised get_forecast_http_raises)
  have 7: "\<forall>resp g gs lat lon e.
      http_get w 0 (geo_url w city) = Inr resp \<and> status_code resp = 200 \<and>
      json_body resp = Inr (JArr (g # gs)) \<and> getitem_str g ''lat'' = Inr lat \<and>
      getitem_str g ''lon'' = Inr lon \<and> http_get w 1 (tz_url w lat lon) = Inl e \<longrightarrow>
      get_current_time w city =
        (failure (''Error getting time data: '' @ str_exn w e),
         [geo_url w city, tz_url w lat lon])"
    by (simp add: get_current_time_raised get_current_time_tz_raises)
  have 8: "\<forall>resp e. http_get w 0 (weather_url w city) = Inr resp \<and> status_code resp = 200 \<and>
      json_body resp = Inl e \<longrightarrow>
      get_weather w city =
        (failure (''Error getting weather data: '' @ str_exn w e), [weather_url w city])"
    by (simp add: get_weather_raised get_weather_json_raises)
  have 9: "\<forall>resp e. http_get w 0 (geo_url w city) = Inr resp \<and> status_code resp = 200 \<and>
      json_body resp = Inl e \<longrightarrow>
      get_current_time w city =
        (failure (''Error getting time data: '' @ str_exn w e), [geo_url w city])"
    by (simp add: get_current_time_raised get_current_time_geo_json_raises)
  have 10: "\<forall>resp e. env_truthy (OPENWEATHER_API_KEY w) \<and>
      http_get w 0 (forecast_url w city) = Inr resp \<and> status_code resp = 200 \<and>
      json_body resp = Inl e \<longrightarrow>
      get_forecast w city =
        (failure (''Error getting forecast data: '' @ str_exn w e), [forecast_url w city])"
    by (simp add: get_forecast_raised get_forecast_json_raises)
  note 11 = get_weather_variant [of w city]
  note 12 = get_current_time_variant [of w city]
  note 13 = get_forecast_variant [of w city]
  note 14 = snd_get_weather_length [of w city]
  note 15 = snd_get_forecast_length [of w city]
  note 16 = get_current_time_calls_distinct [of w city]
  show ?thesis
    by (intro conjI 1 2 3 4 5 6 7 8 9 10 11 12 13 14 15 16 [THEN conjunct1] 16 [THEN conjunct2])
qed

theorem exceptions_are_caught_witness:
  "get_weather offline_world ''London'' =
     (failure ''Error getting weather data: Connection refused'',
      [weather_url offline_world ''London'']) \<and>
   get_forecast (status_world 200) ''London'' =
     (failure ''Error getting forecast data: Expecting value'',
      [forecast_url (status_world 200) ''London'']) \<and>
   get_current_time tz_down_world ''Paris'' =
     (failure ''Error getting time data: Read timed out'',
      [geo_url tz_down_world ''Paris'', tz_url tz_down_world (JFloat paris_lat) (JFloat paris_lon)])"
proof -
  have o: "http_get offline_world 0 u = Inl (LibError ''Connection refused'')" for u
    by (simp add: offline_world_def example_world_def)
  have os: "str_exn offline_world (LibError ''Connection refused'') = ''Connection refused''"
    by (simp add: offline_world_def example_world_def example_str_exn_def)
  have a: "get_weather offline_world ''London'' =
     (failure ''Error getting weather data: Connection refused'',
      [weather_url offline_world ''London''])"
    using exceptions_are_caught [of offline_world "''London''"] by (simp add: o os)
  have k: "env_truthy (OPENWEATHER_API_KEY (status_world 200))"
    by (simp add: status_world_def example_world_def env_truthy_def)
  have h: "http_get (status_world 200) 0 u = Inr (status_response 200)" for u
    by (simp add: status_world_def example_world_def)
  have j: "json_body (status_response 200) = Inl (LibError ''Expecting value'')"
          "status_code (status_response 200) = 200"
    by (simp_all add: status_response_def)
  have js: "str_exn (status_world 200) (LibError ''Expecting value'') = ''Expecting value''"
    by (simp add: status_world_def example_world_def example_str_exn_def)
  have b: "get_forecast (status_world 200) ''London'' =
     (failure ''Error getting forecast data: Expecting value'',
      [forecast_url (status_world 200) ''London''])"
    using exceptions_are_caught [of "status_world 200" "''London''"] by (simp add: k h j js)
  have t0: "http_get tz_down_world 0 u = Inr paris_geo_response" for u
    by (simp add: tz_down_world_def example_world_def)
  have t1: "http_get tz_down_world 1 u = Inl (LibError ''Read timed out'')" for u
    by (simp add: tz_down_world_def example_world_def)
  have tj: "status_code paris_geo_response = 200"
    "json_body paris_geo_response
       = Inr (JArr [JObj [(''lat'', JFloat paris_lat), (''lon'', JFloat paris_lon)]])"
    by (simp_all add: paris_geo_response_def)
  have tl: "getitem_str (JObj [(''lat'', JFloat paris_lat), (''lon'', JFloat paris_lon)]) ''lat''
              = Inr (JFloat paris_lat)"
    "getitem_str (JObj [(''lat'', JFloat paris_lat), (''lon'', JFloat paris_lon)]) ''lon''
              = Inr (JFloat paris_lon)"
    by (simp_all add: getitem_str_def)
  have ts: "str_exn tz_down_world (LibError ''Read timed out'') = ''Read timed out''"
    by (simp add: tz_down_world_def example_world_def example_str_exn_def)
  have c: "get_current_time tz_down_world ''Paris'' =
     (failure ''Error getting time data: Read timed out'',
      [geo_url tz_down_world ''Paris'', tz_url tz_down_world (JFloat paris_lat) (JFloat paris_lon)])"
    using exceptions_are_caught [of tz_down_world "''Paris''"] t0 t1 tj tl ts
    by (metis append.simps)
  from a b c show ?thesis by blast
qed

subsection \<open>The loop over the forecast samples\<close>

lemma pow2_shift:
  assumes "e \<le> x"
  shows "(of_int (m * pow2 (x - e)) :: rat) = of_int m * 2 powi x / 2 powi e"
proof -
  have "(of_int (pow2 (x - e)) :: rat) = 2 powi (x - e)"
    using assms by (simp add: pow2_def power_int_def)
  also have "\<dots> = 2 powi x / 2 powi e"
    by (simp add: power_int_diff)
  finally show ?thesis by simp
qed

lemma scaled_less_iff:
  assumes "e \<le> ea" and "e \<le> eb"
  shows "ma * pow2 (ea - e) < mb * pow2 (eb - e)
           \<longleftrightarrow> (of_int ma :: rat) * 2 powi ea < of_int mb * 2 powi eb"
proof -
  have p: "(0 :: rat) < 2 powi e" by simp
  then have np: "\<not> (2 :: rat) powi e < 0" by (simp add: not_less less_imp_le)
  have "ma * pow2 (ea - e) < mb * pow2 (eb - e)
          \<longleftrightarrow> (of_int (ma * pow2 (ea - e)) :: rat) < of_int (mb * pow2 (eb - e))"
    by (simp only: of_int_less_iff)
  also have "\<dots> \<longleftrightarrow> (of_int ma :: rat) * 2 powi ea / 2 powi e < of_int mb * 2 powi eb / 2 powi e"
    by (simp only: pow2_shift [OF assms(1)] pow2_shift [OF assms(2)])
  also have "\<dots> \<longleftrightarrow> (of_int ma :: rat) * 2 powi ea < of_int mb * 2 powi eb"
    using np by (simp add: divide_less_cancel)
  finally show ?thesis .
qed

lemma py_lt_iff:
  "py_lt a b \<longleftrightarrow>
     a \<noteq> PFloat FNaN \<and> b \<noteq> PFloat FNaN \<and>
     (num_level a < num_level b \<or> (num_level a = num_level b \<and> num_val a < num_val b))"
  using scaled_less_iff [of "min (num_exp a) (num_exp b)" "num_exp a" "num_exp b" "num_mant a" "num_mant b"]
  by (simp add: py_lt_def num_val_def Let_def)

lemma py_lt_irrefl: "\<not> py_lt a a"
  by (simp add: py_lt_iff)

lemma py_lt_trans: "py_lt a b \<Longrightarrow> py_lt b c \<Longrightarrow> py_lt a c"
  by (auto simp: py_lt_iff)

lemma not_below_inf: "\<not> py_lt a (PFloat FInf) \<Longrightarrow> a = PFloat FNaN \<or> a = PFloat FInf"
  by (cases a rule: num_level.cases) (auto simp: py_lt_iff)

lemma not_above_neg_inf: "\<not> py_lt (PFloat FNegInf) b \<Longrightarrow> b = PFloat FNaN \<or> b = PFloat FNegInf"
  by (cases b rule: num_level.cases) (auto simp: py_lt_iff)


lemma is_min_of_Nil: "is_min_of (PFloat FInf) []"
  by (simp add: is_min_of_def)

lemma is_max_of_Nil: "is_max_of (PFloat FNegInf) []"
  by (simp add: is_max_of_def)

lemma is_min_of_step:
  assumes "is_min_of m vs"
  shows "is_min_of (if py_lt a m then a else m) (vs @ [Inr a])"
proof (cases "py_lt a m")
  case True
  have "\<not> py_lt x a" if "\<not> py_lt x m" for x
    using that True py_lt_trans by blast
  with assms True show ?thesis
    by (auto simp: is_min_of_def py_lt_irrefl split: sum.splits)
next
  case False
  show ?thesis
  proof (cases "Inr m \<in> set vs")
    case True
    with assms False show ?thesis
      by (auto simp: is_min_of_def split: sum.splits)
  next
    case nm: False
    with assms have m: "m = PFloat FInf" and all: "\<forall>v \<in> set vs. v = Inr (PFloat FNaN)"
      by (auto simp: is_min_of_def)
    from False m have "a = PFloat FNaN \<or> a = PFloat FInf"
      using not_below_inf by blast
    with assms False m all show ?thesis
      by (auto simp: is_min_of_def split: sum.splits)
  qed
qed

lemma is_max_of_step:
  assumes "is_max_of m vs"
  shows "is_max_of (if py_lt m b then b else m) (vs @ [Inr b])"
proof (cases "py_lt m b")
  case True
  have "\<not> py_lt b x" if "\<not> py_lt m x" for x
    using that True py_lt_trans by blast
  with assms True show ?thesis
    by (auto simp: is_max_of_def py_lt_irrefl split: sum.splits)
next
  case False
  show ?thesis
  proof (cases "Inr m \<in> set vs")
    case True
    with assms False show ?thesis
      by (auto simp: is_max_of_def split: sum.splits)
  next
    case nm: False
    with assms have m: "m = PFloat FNegInf" and all: "\<forall>v \<in> set vs. v = Inr (PFloat FNaN)"
      by (auto simp: is_max_of_def)
    from False m have "b = PFloat FNaN \<or> b = PFloat FNegInf"
      using not_above_neg_inf by blast
    with assms False m all show ?thesis
      by (auto simp: is_max_of_def split: sum.splits)
  qed
qed

lemma first_seen_snoc:
  "first_seen (xs @ [x]) = (if x \<in> set xs then first_seen xs else first_seen xs @ [x])"
  by (simp add: first_seen_def)

lemma set_first_seen [simp]: "set (first_seen xs) = set xs"
  by (simp add: first_seen_def)

lemma distinct_first_seen [simp]: "distinct (first_seen xs)"
  by (simp add: first_seen_def)

lemma map_of_update_entry:
  "map_of (update_entry date g daily) k
     = (if k = date then map_option g (map_of daily k) else map_of daily k)"
  by (induction daily) (auto simp: update_entry_def)

lemma keys_update_entry [simp]: "map fst (update_entry date g daily) = map fst daily"
  by (induction daily) (auto simp: update_entry_def)

lemma set_add_Inr:
  "set_add xs v = Inr ys \<Longrightarrow> ys = (if list_ex (py_eq v) xs then xs else xs @ [v])"
  by (auto simp: set_add_def split: json.splits)

lemma py_eq_sym: "py_eq u v = py_eq v u"
  by (auto simp: py_eq_def split: option.splits)

lemma py_eq_JStr: "py_eq (JStr s) v \<longleftrightarrow> v = JStr s"
  by (auto simp: py_eq_def as_num_def split: option.splits json.splits)

lemma deduplicated_snoc:
  "deduplicated (xs @ [d]) \<longleftrightarrow> deduplicated xs \<and> \<not> list_ex (py_eq d) xs"
  by (induction xs) (auto simp: list_ex_iff py_eq_sym)

lemma describes_Nil: "describes [] []"
  by (simp add: describes_def)

lemma describes_step:
  assumes "describes ds vs"
  shows "describes (if list_ex (py_eq d) ds then ds else ds @ [d]) (vs @ [Inr d])"
proof (cases "list_ex (py_eq d) ds")
  case True
  with assms show ?thesis
    by (auto simp: describes_def split: sum.splits)
next
  case False
  with assms show ?thesis
    by (auto simp: describes_def deduplicated_snoc list_ex_iff split: sum.splits)
qed

text \<open>For string descriptions: the same strings, each once.\<close>

lemma deduplicated_strings:
  "deduplicated ds \<Longrightarrow> \<forall>d \<in> set ds. \<exists>s. d = JStr s \<Longrightarrow> distinct ds"
  by (induction ds) (auto simp: list_ex_iff py_eq_JStr)

lemma describes_strings:
  assumes "describes ds vs" and "\<forall>v \<in> set vs. \<exists>s. v = Inr (JStr s)"
  shows "set (map Inr ds) = set vs \<and> distinct ds"
proof -
  from assms(1) have sub: "set (map Inr ds) \<subseteq> set vs"
    and cov: "\<forall>v \<in> set vs. case v of Inr x \<Rightarrow> x \<in> set ds \<or> list_ex (py_eq x) ds | Inl e \<Rightarrow> False"
    and ded: "deduplicated ds"
    by (simp_all add: describes_def)
  have "v \<in> set (map Inr ds)" if "v \<in> set vs" for v
  proof -
    from that assms(2) obtain s where v: "v = Inr (JStr s)" by blast
    from cov that have "case v of Inr x \<Rightarrow> x \<in> set ds \<or> list_ex (py_eq x) ds | Inl e \<Rightarrow> False"
      by (rule bspec)
    then have "JStr s \<in> set ds \<or> list_ex (py_eq (JStr s)) ds"
      unfolding v by simp
    then have "JStr s \<in> set ds"
      unfolding list_ex_iff py_eq_JStr by blast
    then show ?thesis
      unfolding v by simp
  qed
  with sub have eq: "set (map Inr ds) = set vs" by blast
  have "\<exists>s. d = JStr s" if "d \<in> set ds" for d
  proof -
    from that have "Inr d \<in> set (map Inr ds :: (exn + json) list)" by simp
    with sub have "Inr d \<in> set vs" by (rule subsetD)
    with assms(2) obtain s where "(Inr d :: exn + json) = Inr (JStr s)" by blast
    then show ?thesis by simp
  qed
  then have "\<forall>d \<in> set ds. \<exists>s. d = JStr s" by blast
  with ded have "distinct ds" by (rule deduplicated_strings)
  with eq show ?thesis by blast
qed

lemma py_min_Inr:
  "py_min m v = Inr r \<Longrightarrow> \<exists>a. as_num v = Some a \<and> r = (if py_lt a m then a else m)"
  by (auto simp: py_min_def split: option.splits)

lemma py_max_Inr:
  "py_max m v = Inr r \<Longrightarrow> \<exists>b. as_num v = Some b \<and> r = (if py_lt m b then b else m)"
  by (auto simp: py_max_def split: option.splits)

lemma add_forecast_Inr:
  assumes "add_forecast w daily forecast = Inr daily'"
  shows "\<exists>date a b d old.
           sample_date w forecast = Inr date \<and>
           sample_num forecast ''temp_min'' = Inr a \<and>
           sample_num forecast ''temp_max'' = Inr b \<and>
           sample_description forecast = Inr d \<and>
           old = (case map_of daily date of None \<Rightarrow> fresh_day | Some x \<Rightarrow> x) \<and>
           map fst daily' = (if map_of daily date = None then map fst daily @ [date] else map fst daily) \<and>
           (\<forall>k. k \<noteq> date \<longrightarrow> map_of daily' k = map_of daily k) \<and>
           map_of daily' date = Some (merged old a b d)"
proof -
  from assms obtain dt date where dt: "getitem_str forecast ''dt'' = Inr dt"
    and date: "local_date w dt = Inr date"
    by (auto simp: add_forecast_def raising_eq_Inr)
  define daily1 where "daily1 = (if map_of daily date = None then daily @ [(date, fresh_day)] else daily)"
  define old where "old = (case map_of daily date of None \<Rightarrow> fresh_day | Some x \<Rightarrow> x)"
  have d1: "map_of daily1 date = Some old"
    by (auto simp: daily1_def old_def map_add_def split: option.splits)
  have k1: "map fst daily1 = (if map_of daily date = None then map fst daily @ [date] else map fst daily)"
    by (simp add: daily1_def)
  have o1: "map_of daily1 k = map_of daily k" if "k \<noteq> date" for k
    using that by (simp add: daily1_def map_add_def split: option.splits)
  from assms dt date obtain main1 tmin new_min main2 tmax new_max weather weather0 desc new_set
    where m1: "getitem_str forecast ''main'' = Inr main1"
      and tmin: "getitem_str main1 ''temp_min'' = Inr tmin"
      and new_min: "py_min (temp_min old) tmin = Inr new_min"
      and m2: "getitem_str forecast ''main'' = Inr main2"
      and tmax: "getitem_str main2 ''temp_max'' = Inr tmax"
      and new_max: "py_max (temp_max old) tmax = Inr new_max"
      and ws: "getitem_str forecast ''weather'' = Inr weather"
      and w0: "getitem_0 weather = Inr weather0"
      and desc: "getitem_str weather0 ''description'' = Inr desc"
      and new_set: "set_add (descriptions old) desc = Inr new_set"
      and res: "daily' = update_entry date (\<lambda>d. d\<lparr>descriptions := new_set\<rparr>)
                 (update_entry date (\<lambda>d. d\<lparr>temp_max := new_max\<rparr>)
                   (update_entry date (\<lambda>d. d\<lparr>temp_min := new_min\<rparr>) daily1))"
    using d1
    by (auto simp: add_forecast_def raising_eq_Inr Let_def dict_get_def map_of_update_entry
        daily1_def [symmetric])
  from py_min_Inr [OF new_min] obtain a where a: "as_num tmin = Some a"
    and nm: "new_min = (if py_lt a (temp_min old) then a else temp_min old)" by blast
  from py_max_Inr [OF new_max] obtain b where b: "as_num tmax = Some b"
    and nx: "new_max = (if py_lt (temp_max old) b then b else temp_max old)" by blast
  note ns = set_add_Inr [OF new_set]
  have "sample_date w forecast = Inr date"
    by (simp add: sample_date_def dt date)
  moreover have "sample_num forecast ''temp_min'' = Inr a"
    by (simp add: sample_num_def m1 tmin a)
  moreover have "sample_num forecast ''temp_max'' = Inr b"
    using tmax by (simp add: sample_num_def m2 b)
  moreover have "sample_description forecast = Inr desc"
    by (simp add: sample_description_def ws w0 desc)
  moreover have "map fst daily' = (if map_of daily date = None then map fst daily @ [date] else map fst daily)"
    by (simp add: res k1)
  moreover have "\<forall>k. k \<noteq> date \<longrightarrow> map_of daily' k = map_of daily k"
    by (simp add: res map_of_update_entry o1)
  moreover have "map_of daily' date = Some (merged old a b desc)"
    by (simp add: res map_of_update_entry d1 merged_def nm nx ns)
  ultimately show ?thesis
    using old_def by blast
qed


lemma aggregates_fresh: "aggregates fresh_day []"
  by (simp add: aggregates_def fresh_day_def is_min_of_Nil is_max_of_Nil describes_Nil)

lemma aggregates_step:
  assumes "aggregates old fs"
    and "sample_num f ''temp_min'' = Inr a"
    and "sample_num f ''temp_max'' = Inr b"
    and "sample_description f = Inr d"
  shows "aggregates (merged old a b d) (fs @ [f])"
proof -
  from assms(1) have
    mn: "is_min_of (temp_min old) (map (\<lambda>forecast. sample_num forecast ''temp_min'') fs)" and
    mx: "is_max_of (temp_max old) (map (\<lambda>forecast. sample_num forecast ''temp_max'') fs)" and
    ds: "describes (descriptions old) (map sample_description fs)"
    by (simp_all add: aggregates_def)
  have "is_min_of (temp_min (merged old a b d))
          (map (\<lambda>forecast. sample_num forecast ''temp_min'') (fs @ [f]))"
    using is_min_of_step [OF mn, of a] by (simp add: merged_def assms(2))
  moreover have "is_max_of (temp_max (merged old a b d))
          (map (\<lambda>forecast. sample_num forecast ''temp_max'') (fs @ [f]))"
    using is_max_of_step [OF mx, of b] by (simp add: merged_def assms(3))
  moreover have "describes (descriptions (merged old a b d)) (map sample_description (fs @ [f]))"
    using describes_step [OF ds, of d] by (simp add: merged_def assms(4))
  ultimately show ?thesis
    by (simp add: aggregates_def)
qed

lemma add_forecast_aggregated:
  assumes "add_forecast w daily f = Inr daily'" and "aggregated w seen daily"
  shows "aggregated w (seen @ [f]) daily'"
proof -
  from add_forecast_Inr [OF assms(1)] obtain date a b d old where
    sd: "sample_date w f = Inr date" and
    a: "sample_num f ''temp_min'' = Inr a" and
    b: "sample_num f ''temp_max'' = Inr b" and
    d: "sample_description f = Inr d" and
    old: "old = (case map_of daily date of None \<Rightarrow> fresh_day | Some x \<Rightarrow> x)" and
    keys': "map fst daily' = (if map_of daily date = None then map fst daily @ [date] else map fst daily)" and
    other: "\<forall>k. k \<noteq> date \<longrightarrow> map_of daily' k = map_of daily k" and
    this_day: "map_of daily' date = Some (merged old a b d)"
    by blast
  from assms(2) have
    keys: "map Inr (map fst daily) = first_seen (map (sample_date w) seen)" and
    entries: "\<forall>entry \<in> set daily.
         day_samples w (fst entry) seen \<noteq> [] \<and>
         aggregates (snd entry) (day_samples w (fst entry) seen)"
    by (simp_all add: aggregated_def)
  have "set (map Inr (map fst daily)) = set (map (sample_date w) seen)"
    by (simp only: keys set_first_seen)
  then have known: "Inr date \<in> set (map (sample_date w) seen) \<longleftrightarrow> date \<in> set (map fst daily)"
    by (metis (no_types, lifting) image_iff list.set_map sum.inject(2))
  have none: "map_of daily date = None \<longleftrightarrow> Inr date \<notin> set (map (sample_date w) seen)"
    by (simp only: known map_of_eq_None_iff) simp
  have k': "map Inr (map fst daily') = first_seen (map (sample_date w) (seen @ [f]))"
    using keys keys' none by (simp add: first_seen_snoc sd)
  have "distinct (map Inr (map fst daily') :: (exn + string) list)"
    unfolding k' by (rule distinct_first_seen)
  then have dist: "distinct (map fst daily')"
    using distinct_map [of Inr "map fst daily'"] by blast
  have weak: "aggregates old (day_samples w date seen)"
  proof (cases "map_of daily date")
    case None
    with none have "Inr date \<notin> sample_date w ` set seen" by simp
    then have "day_samples w date seen = []"
      unfolding day_samples_def filter_empty_conv by (metis imageI)
    with None old show ?thesis
      by (simp add: aggregates_fresh)
  next
    case (Some x)
    then have "(date, x) \<in> set daily" by (rule map_of_SomeD)
    with entries Some old show ?thesis by auto
  qed
  have "day_samples w (fst entry) (seen @ [f]) \<noteq> [] \<and>
        aggregates (snd entry) (day_samples w (fst entry) (seen @ [f]))"
    if "entry \<in> set daily'" for entry
  proof (cases "fst entry = date")
    case True
    from that dist have "map_of daily' (fst entry) = Some (snd entry)"
      by (metis map_of_is_SomeI prod.collapse)
    with True this_day have e: "snd entry = merged old a b d" by simp
    have "day_samples w date (seen @ [f]) = day_samples w date seen @ [f]"
      by (simp add: day_samples_def sd)
    with aggregates_step [OF weak a b d] e True show ?thesis by simp
  next
    case False
    from that dist have "map_of daily' (fst entry) = Some (snd entry)"
      by (metis map_of_is_SomeI prod.collapse)
    with False other have "map_of daily (fst entry) = Some (snd entry)" by simp
    then have "(fst entry, snd entry) \<in> set daily" by (rule map_of_SomeD)
    then have "entry \<in> set daily" by simp
    moreover have "day_samples w (fst entry) (seen @ [f]) = day_samples w (fst entry) seen"
      using False by (simp add: day_samples_def sd)
    ultimately show ?thesis using entries by simp
  qed
  with k' show ?thesis
    by (simp add: aggregated_def)
qed

lemma aggregated_Nil: "aggregated w [] []"
  by (simp add: aggregated_def first_seen_def)

lemma fold_forecasts_aggregated:
  assumes "fold_forecasts w fs daily = Inr daily'" and "aggregated w seen daily"
  shows "aggregated w (seen @ fs) daily'"
  using assms
proof (induction fs arbitrary: daily seen)
  case Nil
  then show ?case by simp
next
  case (Cons f fs)
  from Cons.prems(1) obtain daily1 where 1: "add_forecast w daily f = Inr daily1"
    and 2: "fold_forecasts w fs daily1 = Inr daily'"
    by (auto simp: raising_eq_Inr)
  from add_forecast_aggregated [OF 1 Cons.prems(2)] have "aggregated w (seen @ [f]) daily1" .
  from Cons.IH [OF 2 this] show ?case by simp
qed

text \<open>
  Claim C8. After the loop over the samples, every entry of \<^verbatim>\<open>daily_forecasts\<close> belongs to a
  calendar day that has samples, and for the samples of that day: \<^verbatim>\<open>temp_min\<close> is the
  minimum of their \<^verbatim>\<open>main.temp_min\<close>, \<^verbatim>\<open>temp_max\<close> is the maximum of their \<^verbatim>\<open>main.temp_max\<close>,
  and \<^verbatim>\<open>descriptions\<close> holds exactly their \<^verbatim>\<open>weather[0].description\<close> values, each once.
  (Readings that are all NaN leave the minimum at \<^verbatim>\<open>inf\<close> and the maximum at \<^verbatim>\<open>-inf\<close>, as
  \<open>is_min_of\<close> and \<open>is_max_of\<close> say.)
\<close>

theorem daily_aggregates:
  assumes "fold_forecasts w samples [] = Inr daily" and "(date, agg) \<in> set daily"
  shows "day_samples w date samples \<noteq> [] \<and>
         is_min_of (temp_min agg)
           (map (\<lambda>forecast. sample_num forecast ''temp_min'') (day_samples w date samples)) \<and>
         is_max_of (temp_max agg)
           (map (\<lambda>forecast. sample_num forecast ''temp_max'') (day_samples w date samples)) \<and>
         describes (descriptions agg) (map sample_description (day_samples w date samples)) \<and>
         ((\<forall>forecast \<in> set (day_samples w date samples).
             \<exists>s. sample_description forecast = Inr (JStr s)) \<longrightarrow>
          set (map Inr (descriptions agg))
            = set (map sample_description (day_samples w date samples)) \<and>
          distinct (descriptions agg))"
proof -
  from fold_forecasts_aggregated [OF assms(1) aggregated_Nil]
  have "aggregated w samples daily" by simp
  with assms(2) have "day_samples w date samples \<noteq> [] \<and>
         aggregates agg (day_samples w date samples)"
    by (auto simp: aggregated_def)
  then show ?thesis
    using describes_strings [of "descriptions agg" "map sample_description (day_samples w date samples)"]
    by (simp add: aggregates_def)
qed

theorem daily_aggregates_witness:
  "fold_forecasts week_world week_samples [] = Inr week_daily \<and>
   (''2025-01-01'', week_day_1) \<in> set week_daily \<and>
   day_samples week_world ''2025-01-01'' week_samples = take 2 week_samples \<and>
   is_min_of (PFloat (FNum 9 0))
     (map (\<lambda>forecast. sample_num forecast ''temp_min'') (take 2 week_samples)) \<and>
   is_max_of (PFloat (FNum 29 (- 1)))
     (map (\<lambda>forecast. sample_num forecast ''temp_max'') (take 2 week_samples)) \<and>
   set (map Inr [JStr ''clear sky'', JStr ''few clouds''])
     = set (map sample_description (take 2 week_samples))"
proof -
  have f: "fold_forecasts week_world week_samples [] = Inr week_daily"
    by code_simp
  have m: "(''2025-01-01'', week_day_1) \<in> set week_daily"
    by (simp add: week_daily_def)
  have d: "day_samples week_world ''2025-01-01'' week_samples = take 2 week_samples"
    by code_simp
  have s: "\<forall>forecast \<in> set (take 2 week_samples). \<exists>s. sample_description forecast = Inr (JStr s)"
    by (simp add: week_samples_def forecast_sample_def sample_description_def getitem_str_def
        getitem_0_def)
  from daily_aggregates [OF f m] f m d s show ?thesis
    by (simp add: week_day_1_def)
qed

subsection \<open>The forecast report\<close>

lemma render_days_Inr:
  "render_days w entries acc = Inr report \<Longrightarrow>
     \<exists>blocks. list_all2 (\<lambda>entry block. day_block w entry = Inr block) entries blocks \<and>
       report = acc @ concat blocks"
proof (induction entries arbitrary: acc)
  case Nil
  then show ?case by simp
next
  case (Cons entry rest)
  from Cons.prems obtain block where b: "day_block w entry = Inr block"
    and r: "render_days w rest (acc @ block) = Inr report"
    by (auto simp: raising_eq_Inr)
  from Cons.IH [OF r] obtain blocks where
    "list_all2 (\<lambda>entry block. day_block w entry = Inr block) rest blocks"
    "report = (acc @ block) @ concat blocks"
    by blast
  with b have "list_all2 (\<lambda>entry block. day_block w entry = Inr block) (entry # rest) (block # blocks)
      \<and> report = acc @ concat (block # blocks)"
    by simp
  then show ?case by blast
qed

text \<open>A block starts with the line that names its day.\<close>

lemma day_block_prefix:
  "day_block w entry = Inr block \<Longrightarrow>
     prefix (calendar_emoji @ '' '' @ fst entry @ '':'' @ newline) block"
  by (auto simp: day_block_def Let_def raising_eq_Inr prefix_def)

lemma get_forecast_success:
  assumes "is_success (fst (get_forecast w city))"
  shows "\<exists>resp. http_get w 0 (forecast_url w city) = Inr resp \<and> status_code resp = 200 \<and>
           forecast_report w city resp = Inr (fst (get_forecast w city))"
  using assms
  by (auto simp: get_forecast_def get_forecast_try_def requests_get_def is_success_def failure_def
      split: if_splits sum.splits)

lemma forecast_days_of_success:
  assumes "is_success (fst (get_forecast w city))"
  shows "\<exists>resp data forecast_list samples daily blocks.
           http_get w 0 (forecast_url w city) = Inr resp \<and> status_code resp = 200 \<and>
           json_body resp = Inr data \<and> getitem_str data ''list'' = Inr forecast_list \<and>
           py_iter forecast_list = Inr samples \<and>
           fold_forecasts w samples [] = Inr daily \<and>
           aggregated w samples daily \<and>
           list_all2 (\<lambda>entry block. day_block w entry = Inr block \<and>
                        prefix (calendar_emoji @ '' '' @ fst entry @ '':'' @ newline) block)
             (take 5 daily) blocks \<and>
           length blocks = min 5 (length (first_seen (map (sample_date w) samples))) \<and>
           fst (get_forecast w city) = success (report_header city @ concat blocks)"
proof -
  from get_forecast_success [OF assms] obtain resp where
    1: "http_get w 0 (forecast_url w city) = Inr resp" "status_code resp = 200"
    and r: "forecast_report w city resp = Inr (fst (get_forecast w city))"
    by blast
  from r obtain data forecast_list samples daily report where
    2: "json_body resp = Inr data" "getitem_str data ''list'' = Inr forecast_list"
       "py_iter forecast_list = Inr samples" "fold_forecasts w samples [] = Inr daily"
    and rd: "render_days w (take 5 daily) (report_header city) = Inr report"
    and res: "fst (get_forecast w city) = success report"
    by (auto simp: forecast_report_def raising_eq_Inr)
  from fold_forecasts_aggregated [OF 2(4) aggregated_Nil]
  have agg: "aggregated w samples daily" by simp
  from render_days_Inr [OF rd] obtain blocks where
    b: "list_all2 (\<lambda>entry block. day_block w entry = Inr block) (take 5 daily) blocks"
    and rep: "report = report_header city @ concat blocks"
    by blast
  from b have b': "list_all2 (\<lambda>entry block. day_block w entry = Inr block \<and>
                        prefix (calendar_emoji @ '' '' @ fst entry @ '':'' @ newline) block)
             (take 5 daily) blocks"
    by (rule list_all2_mono) (blast intro: day_block_prefix)
  from agg have "length (first_seen (map (sample_date w) samples)) = length daily"
    by (metis aggregated_def length_map)
  with b have len: "length blocks = min 5 (length (first_seen (map (sample_date w) samples)))"
    by (auto dest: list_all2_lengthD)
  from 1 2 agg b' len res rep show ?thesis
    by blast
qed

lemma printable_fresh: "printable fresh_day"
  by (simp add: printable_def fresh_day_def)

lemma update_entry_printable:
  assumes "\<forall>entry \<in> set daily. printable (snd entry)" and "\<And>d. printable d \<Longrightarrow> printable (g d)"
  shows "\<forall>entry \<in> set (update_entry date g daily). printable (snd entry)"
  using assms by (auto simp: update_entry_def)

lemma well_formed_sampleD:
  assumes "well_formed_sample w forecast"
  obtains dt date main a b weather weather0 s where
    "getitem_str forecast ''dt'' = Inr dt" "local_date w dt = Inr date"
    "getitem_str forecast ''main'' = Inr main"
    "getitem_str main ''temp_min'' = Inr (JFloat a)"
    "getitem_str main ''temp_max'' = Inr (JFloat b)"
    "getitem_str forecast ''weather'' = Inr weather" "getitem_0 weather = Inr weather0"
    "getitem_str weather0 ''description'' = Inr (JStr s)"
proof -
  from assms obtain date where "sample_date w forecast = Inr date"
    by (auto simp: well_formed_sample_def split: sum.splits)
  then obtain dt where 1: "getitem_str forecast ''dt'' = Inr dt" "local_date w dt = Inr date"
    by (auto simp: sample_date_def raising_eq_Inr)
  from assms obtain a where
    "raising (getitem_str forecast ''main'') (\<lambda>main. getitem_str main ''temp_min'') = Inr (JFloat a)"
    by (auto simp: well_formed_sample_def split: sum.splits json.splits)
  then obtain main where 2: "getitem_str forecast ''main'' = Inr main"
    "getitem_str main ''temp_min'' = Inr (JFloat a)"
    by (auto simp: raising_eq_Inr)
  from assms obtain b where
    "raising (getitem_str forecast ''main'') (\<lambda>main. getitem_str main ''temp_max'') = Inr (JFloat b)"
    by (auto simp: well_formed_sample_def split: sum.splits json.splits)
  with 2 have 3: "getitem_str main ''temp_max'' = Inr (JFloat b)"
    by (auto simp: raising_eq_Inr)
  from assms obtain s where "sample_description forecast = Inr (JStr s)"
    by (auto simp: well_formed_sample_def split: sum.splits json.splits)
  then obtain weather weather0 where 4: "getitem_str forecast ''weather'' = Inr weather"
    "getitem_0 weather = Inr weather0" "getitem_str weather0 ''description'' = Inr (JStr s)"
    by (auto simp: sample_description_def raising_eq_Inr)
  from 1 2 3 4 that show thesis by blast
qed

lemma add_forecast_well_formed:
  assumes "well_formed_sample w forecast" and "\<forall>entry \<in> set daily. printable (snd entry)"
  shows "\<exists>daily'. add_forecast w daily forecast = Inr daily' \<and>
           (\<forall>entry \<in> set daily'. printable (snd entry))"
proof -
  from assms(1) obtain dt date main a b weather weather0 s where f:
    "getitem_str forecast ''dt'' = Inr dt" "local_date w dt = Inr date"
    "getitem_str forecast ''main'' = Inr main"
    "getitem_str main ''temp_min'' = Inr (JFloat a)"
    "getitem_str main ''temp_max'' = Inr (JFloat b)"
    "getitem_str forecast ''weather'' = Inr weather" "getitem_0 weather = Inr weather0"
    "getitem_str weather0 ''description'' = Inr (JStr s)"
    by (rule well_formed_sampleD)
  define daily1 where "daily1 = (if map_of daily date = None then daily @ [(date, fresh_day)] else daily)"
  define old where "old = (case map_of daily date of None \<Rightarrow> fresh_day | Some x \<Rightarrow> x)"
  have d1: "map_of daily1 date = Some old"
    by (auto simp: daily1_def old_def map_add_def split: option.splits)
  have p1: "\<forall>entry \<in> set daily1. printable (snd entry)"
    using assms(2) by (auto simp: daily1_def printable_fresh)
  from d1 have "(date, old) \<in> set daily1" by (rule map_of_SomeD)
  with p1 have po: "printable old" by auto
  define new_min where "new_min = (if py_lt (PFloat a) (temp_min old) then PFloat a else temp_min old)"
  define new_max where "new_max = (if py_lt (temp_max old) (PFloat b) then PFloat b else temp_max old)"
  define new_set where "new_set = (if list_ex (py_eq (JStr s)) (descriptions old)
                                    then descriptions old else descriptions old @ [JStr s])"
  define daily' where "daily' = update_entry date (\<lambda>d. d\<lparr>descriptions := new_set\<rparr>)
                 (update_entry date (\<lambda>d. d\<lparr>temp_max := new_max\<rparr>)
                   (update_entry date (\<lambda>d. d\<lparr>temp_min := new_min\<rparr>) daily1))"
  have "add_forecast w daily forecast = Inr daily'"
    using d1
    by (simp add: add_forecast_def f Let_def dict_get_def map_of_update_entry py_min_def py_max_def
        as_num_def set_add_def daily1_def [symmetric] daily'_def new_min_def new_max_def
        new_set_def)
  moreover have "\<forall>entry \<in> set daily'. printable (snd entry)"
  proof -
    have n1: "printable (d\<lparr>temp_min := new_min\<rparr>)" if "printable d" for d
      using po that by (simp add: new_min_def printable_def)
    have n2: "printable (d\<lparr>temp_max := new_max\<rparr>)" if "printable d" for d
      using po that by (simp add: new_max_def printable_def)
    have n3: "printable (d\<lparr>descriptions := new_set\<rparr>)" if "printable d" for d
      using po that by (simp add: new_set_def printable_def json_str_def)
    show ?thesis
      unfolding daily'_def
      by (intro update_entry_printable p1 n1 n2 n3)
  qed
  ultimately show ?thesis by blast
qed

lemma fold_forecasts_well_formed:
  assumes "list_all (well_formed_sample w) forecasts" and "\<forall>entry \<in> set daily. printable (snd entry)"
  shows "\<exists>daily'. fold_forecasts w forecasts daily = Inr daily' \<and>
           (\<forall>entry \<in> set daily'. printable (snd entry))"
  using assms
proof (induction forecasts arbitrary: daily)
  case Nil
  then show ?case by simp
next
  case (Cons forecast rest)
  from Cons.prems have "well_formed_sample w forecast" and r: "list_all (well_formed_sample w) rest"
    by simp_all
  from add_forecast_well_formed [OF this(1) Cons.prems(2)] obtain daily1 where
    1: "add_forecast w daily forecast = Inr daily1" and 2: "\<forall>entry \<in> set daily1. printable (snd entry)"
    by blast
  from Cons.IH [OF r 2] 1 show ?case by simp
qed

lemma those_map_Some:
  "\<forall>x \<in> set xs. f x \<noteq> None \<Longrightarrow> \<exists>ys. those (map f xs) = Some ys"
  by (induction xs) auto

lemma day_block_printable:
  assumes "printable (snd entry)" and "\<forall>xs. set (set_order w xs) \<subseteq> set xs"
  shows "\<exists>block. day_block w entry = Inr block"
proof -
  from assms(1) obtain a b where t: "temp_min (snd entry) = PFloat a" "temp_max (snd entry) = PFloat b"
    and s: "list_all (\<lambda>d. json_str d \<noteq> None) (descriptions (snd entry))"
    by (auto simp: printable_def split: pynum.splits)
  from s assms(2) have "\<forall>x \<in> set (set_order w (descriptions (snd entry))). json_str x \<noteq> None"
    by (auto simp: list_all_iff)
  from those_map_Some [OF this] obtain ss where
    "those (map json_str (set_order w (descriptions (snd entry)))) = Some ss" by blast
  then have j: "join_descriptions w (descriptions (snd entry)) = Inr (join_comma ss)"
    by (simp add: join_descriptions_def)
  show ?thesis
    by (simp add: day_block_def Let_def t fahrenheit_float j format_1f_def)
qed

lemma render_days_printable:
  assumes "\<forall>entry \<in> set entries. printable (snd entry)" and "\<forall>xs. set (set_order w xs) \<subseteq> set xs"
  shows "\<exists>report. render_days w entries acc = Inr report"
  using assms(1)
proof (induction entries arbitrary: acc)
  case Nil
  then show ?case by simp
next
  case (Cons entry rest)
  then have "printable (snd entry)" by simp
  from day_block_printable [OF this assms(2)] obtain block where "day_block w entry = Inr block"
    by blast
  with Cons show ?case by simp
qed

lemma get_forecast_well_formed:
  assumes "env_truthy (OPENWEATHER_API_KEY w)"
    and "http_get w 0 (forecast_url w city) = Inr resp"
    and "status_code resp = 200"
    and "json_body resp = Inr data"
    and "getitem_str data ''list'' = Inr (JArr samples)"
    and "list_all (well_formed_sample w) samples"
    and "\<forall>xs. set (set_order w xs) \<subseteq> set xs"
  shows "is_success (fst (get_forecast w city))"
proof -
  from fold_forecasts_well_formed [OF assms(6), of "[]"] obtain daily where
    f: "fold_forecasts w samples [] = Inr daily" and p: "\<forall>entry \<in> set daily. printable (snd entry)"
    by auto
  from p have "\<forall>entry \<in> set (take 5 daily). printable (snd entry)"
    by (meson in_set_takeD)
  from render_days_printable [OF this assms(7)] obtain report where
    "render_days w (take 5 daily) (report_header city) = Inr report" by blast
  with f have "forecast_report w city resp = Inr (success report)"
    by (simp add: forecast_report_def assms(4,5) py_iter_def)
  then show ?thesis
    by (simp add: get_forecast_def get_forecast_try_def requests_get_def assms(1,2,3))
qed

text \<open>
  Claim C4. On a 200 forecast response \<^verbatim>\<open>get_forecast\<close> folds the samples into one
  aggregate per calendar day, the day being the local date of the sample's \<^verbatim>\<open>dt\<close>, keeps
  the days in first-seen order, and prints the first five of them, one block each, after
  the header: with seven distinct days the report has exactly five blocks.

  The first part says that a response in the documented shape is always reported: when
  every sample has a timestamp the local clock converts, float readings and a string
  description (and iterating a set yields elements of the set), the success dict is
  returned. The second part describes every success dict \<^verbatim>\<open>get_forecast\<close> returns.
\<close>

theorem forecast_days:
  "(env_truthy (OPENWEATHER_API_KEY w) \<and>
    http_get w 0 (forecast_url w city) = Inr resp \<and> status_code resp = 200 \<and>
    json_body resp = Inr data \<and> getitem_str data ''list'' = Inr (JArr forecasts) \<and>
    list_all (well_formed_sample w) forecasts \<and>
    (\<forall>xs. set (set_order w xs) \<subseteq> set xs) \<longrightarrow>
      is_success (fst (get_forecast w city))) \<and>
   (is_success (fst (get_forecast w city)) \<longrightarrow>
      (\<exists>resp data forecast_list samples daily blocks.
         http_get w 0 (forecast_url w city) = Inr resp \<and> status_code resp = 200 \<and>
         json_body resp = Inr data \<and> getitem_str data ''list'' = Inr forecast_list \<and>
         py_iter forecast_list = Inr samples \<and>
         fold_forecasts w samples [] = Inr daily \<and>
         aggregated w samples daily \<and>
         list_all2 (\<lambda>entry block. day_block w entry = Inr block \<and>
                      prefix (calendar_emoji @ '' '' @ fst entry @ '':'' @ newline) block)
           (take 5 daily) blocks \<and>
         length blocks = min 5 (length (first_seen (map (sample_date w) samples))) \<and>
         fst (get_forecast w city) = success (report_header city @ concat blocks)))"
proof (intro conjI impI)
  assume "env_truthy (OPENWEATHER_API_KEY w) \<and>
    http_get w 0 (forecast_url w city) = Inr resp \<and> status_code resp = 200 \<and>
    json_body resp = Inr data \<and> getitem_str data ''list'' = Inr (JArr forecasts) \<and>
    list_all (well_formed_sample w) forecasts \<and>
    (\<forall>xs. set (set_order w xs) \<subseteq> set xs)"
  then show "is_success (fst (get_forecast w city))"
    using get_forecast_well_formed [of w city resp data forecasts] by blast
next
  assume "is_success (fst (get_forecast w city))"
  then show "\<exists>resp data forecast_list samples daily blocks.
         http_get w 0 (forecast_url w city) = Inr resp \<and> status_code resp = 200 \<and>
         json_body resp = Inr data \<and> getitem_str data ''list'' = Inr forecast_list \<and>
         py_iter forecast_list = Inr samples \<and>
         fold_forecasts w samples [] = Inr daily \<and>
         aggregated w samples daily \<and>
         list_all2 (\<lambda>entry block. day_block w entry = Inr block \<and>
                      prefix (calendar_emoji @ '' '' @ fst entry @ '':'' @ newline) block)
           (take 5 daily) blocks \<and>
         length blocks = min 5 (length (first_seen (map (sample_date w) samples))) \<and>
         fst (get_forecast w city) = success (report_header city @ concat blocks)"
    by (rule forecast_days_of_success)
qed

text \<open>
  A week of samples: seven distinct days, and a report of the five blocks of 1 to 5
  January.
\<close>

theorem forecast_days_witness:
  "length (first_seen (map (sample_date week_world) week_samples)) = 7 \<and>
   get_forecast week_world ''Lima''
     = (success (report_header ''Lima'' @ concat week_blocks), [forecast_url week_world ''Lima'']) \<and>
   length week_blocks = 5 \<and>
   is_success (fst (get_forecast week_world ''Lima'')) \<and>
   (\<exists>resp data forecast_list samples daily blocks.
      http_get week_world 0 (forecast_url week_world ''Lima'') = Inr resp \<and>
      status_code resp = 200 \<and>
      json_body resp = Inr data \<and> getitem_str data ''list'' = Inr forecast_list \<and>
      py_iter forecast_list = Inr samples \<and>
      fold_forecasts week_world samples [] = Inr daily \<and>
      aggregated week_world samples daily \<and>
      list_all2 (\<lambda>entry block. day_block week_world entry = Inr block \<and>
                   prefix (calendar_emoji @ '' '' @ fst entry @ '':'' @ newline) block)
        (take 5 daily) blocks \<and>
      length blocks = min 5 (length (first_seen (map (sample_date week_world) samples))) \<and>
      fst (get_forecast week_world ''Lima'') = success (report_header ''Lima'' @ concat blocks))"
proof (intro conjI)
  show "length (first_seen (map (sample_date week_world) week_samples)) = 7"
    by code_simp
  show "get_forecast week_world ''Lima''
     = (success (report_header ''Lima'' @ concat week_blocks), [forecast_url week_world ''Lima''])"
    by code_simp
  show "length week_blocks = 5"
    by (simp add: week_blocks_def)
  have k: "env_truthy (OPENWEATHER_API_KEY week_world)"
    by (simp add: week_world_def example_world_def env_truthy_def)
  have h: "http_get week_world 0 (forecast_url week_world ''Lima'')
             = Inr \<lparr>status_code = 200, json_body = Inr (JObj [(''list'', JArr week_samples)])\<rparr>"
    by (simp add: week_world_def example_world_def)
  have l: "getitem_str (JObj [(''list'', JArr week_samples)]) ''list'' = Inr (JArr week_samples)"
    by (simp add: getitem_str_def)
  have wf: "list_all (well_formed_sample week_world) week_samples"
    by code_simp
  have so: "\<forall>xs. set (set_order week_world xs) \<subseteq> set xs"
    by (simp add: week_world_def example_world_def)
  from forecast_days [of week_world "''Lima''"
      "\<lparr>status_code = 200, json_body = Inr (JObj [(''list'', JArr week_samples)])\<rparr>"
      "JObj [(''list'', JArr week_samples)]" week_samples, THEN conjunct1] k h l wf so
  show s: "is_success (fst (get_forecast week_world ''Lima''))"
    by simp
  show "\<exists>resp data forecast_list samples daily blocks.
      http_get week_world 0 (forecast_url week_world ''Lima'') = Inr resp \<and>
      status_code resp = 200 \<and>
      json_body resp = Inr data \<and> getitem_str data ''list'' = Inr forecast_list \<and>
      py_iter forecast_list = Inr samples \<and>
      fold_forecasts week_world samples [] = Inr daily \<and>
      aggregated week_world samples daily \<and>
      list_all2 (\<lambda>entry block. day_block week_world entry = Inr block \<and>
                   prefix (calendar_emoji @ '' '' @ fst entry @ '':'' @ newline) block)
        (take 5 daily) blocks \<and>
      length blocks = min 5 (length (first_seen (map (sample_date week_world) samples))) \<and>
      fst (get_forecast week_world ''Lima'') = success (report_header ''Lima'' @ concat blocks)"
    by (rule forecast_days [THEN conjunct2, THEN mp, OF s])
qed

end
